theory Spec2Isabelle
  imports Main "HOL-Library.Sublist" "HOL-Library.List_Lexorder" "HOL-Library.Char_ord"
begin

section \<open>Python values used by the bot\<close>

text \<open>
  A Python \<open>str\<close> is modelled as a \<open>string\<close> whose characters are the code points
  0..255 (Latin-1). Exceptions are values: an expression that can raise has a result of
  type \<open>py_error + 'a\<close>.
\<close>

datatype py_error = IndexError

text \<open>\<open>xs[i]\<close> for a non-negative index: IndexError when out of range.\<close>

definition py_index :: "'a list \<Rightarrow> nat \<Rightarrow> py_error + 'a" where
  "py_index xs i = (if i < length xs then Inr (xs ! i) else Inl IndexError)"

text \<open>\<open>sum(...)\<close>: the left fold of \<open>+\<close> from 0.\<close>

definition py_sum :: "int list \<Rightarrow> int" where
  "py_sum xs = foldl (+) 0 xs"

text \<open>
  The characters \<open>str.split()\<close> and \<open>str.strip()\<close> treat as whitespace: tab, line feed,
  vertical tab, form feed, carriage return, the separators 0x1C..0x1F, space, NEL (0x85)
  and the no-break space (0xA0).
\<close>

definition py_isspace :: "char \<Rightarrow> bool" where
  "py_isspace c =
     (let n = (of_char c :: nat)
      in (9 \<le> n \<and> n \<le> 13) \<or> (28 \<le> n \<and> n \<le> 32) \<or> n = 133 \<or> n = 160)"

text \<open>
  \<open>str.lower()\<close>, character by character: the letters A..Z and the Latin-1 capitals
  0xC0..0xDE (without the multiplication sign 0xD7) move up by 32, which sets bit 5.
\<close>

definition py_lower_char :: "char \<Rightarrow> char" where
  "py_lower_char c =
     (let n = (of_char c :: nat)
      in if (65 \<le> n \<and> n \<le> 90) \<or> (192 \<le> n \<and> n \<le> 222 \<and> n \<noteq> 215)
         then Char (digit0 c) (digit1 c) (digit2 c) (digit3 c) (digit4 c) True
                (digit6 c) (digit7 c)
         else c)"

definition py_lower :: "string \<Rightarrow> string" where
  "py_lower s = map py_lower_char s"

text \<open>\<open>s.strip()\<close>\<close>

definition py_strip :: "string \<Rightarrow> string" where
  "py_strip s = rev (dropWhile py_isspace (rev (dropWhile py_isspace s)))"

text \<open>\<open>s.split()\<close>: the maximal runs of characters that are not whitespace.\<close>

function py_split_ws :: "string \<Rightarrow> string list" where
  "py_split_ws s =
     (case dropWhile py_isspace s of
        [] \<Rightarrow> []
      | c # cs \<Rightarrow>
          (c # takeWhile (\<lambda>x. \<not> py_isspace x) cs)
          # py_split_ws (dropWhile (\<lambda>x. \<not> py_isspace x) cs))"
  by pat_completeness auto
termination
proof (relation "measure length")
  show "wf (measure length)" by simp
next
  fix s :: string and c cs
  assume "dropWhile py_isspace s = c # cs"
  then have "Suc (length cs) \<le> length s"
    using length_dropWhile_le [of py_isspace s] by simp
  moreover have "length (dropWhile (\<lambda>x. \<not> py_isspace x) cs) \<le> length cs"
    by (rule length_dropWhile_le)
  ultimately show "(dropWhile (\<lambda>x. \<not> py_isspace x) cs, s) \<in> measure length"
    by simp
qed

declare py_split_ws.simps [simp del]

text \<open>
  \<open>s.split(sep)\<close>: the pieces between the occurrences of \<open>sep\<close>, found from the left
  without overlap. Every call site passes a literal, non-empty separator (Python raises
  ValueError for an empty one; the model then leaves the string in one piece).
\<close>

function py_split :: "string \<Rightarrow> string \<Rightarrow> string list" where
  "py_split sep s =
     (if sep \<noteq> [] \<and> prefix sep s then [] # py_split sep (drop (length sep) s)
      else case s of
             [] \<Rightarrow> [[]]
           | c # cs \<Rightarrow>
               (case py_split sep cs of
                  [] \<Rightarrow> [[c]]
                | piece # pieces \<Rightarrow> (c # piece) # pieces))"
  by pat_completeness auto
termination
  by (relation "measure (\<lambda>(sep, s). length s)") (auto simp: prefix_def)

declare py_split.simps [simp del]

text \<open>\<open>x in s\<close> for strings: \<open>x\<close> occurs in \<open>s\<close> as a contiguous piece.\<close>

fun py_in :: "string \<Rightarrow> string \<Rightarrow> bool" where
  "py_in x [] = (x = [])"
| "py_in x (c # cs) = (prefix x (c # cs) \<or> py_in x cs)"

text \<open>\<open>s.endswith((a, b, ...))\<close> with a tuple of suffixes.\<close>

definition endswith_any :: "string \<Rightarrow> string list \<Rightarrow> bool" where
  "endswith_any s sufs = list_ex (\<lambda>x. suffix x s) sufs"

text \<open>\<open>sep.join(xs)\<close>\<close>

fun py_join :: "string \<Rightarrow> string list \<Rightarrow> string" where
  "py_join sep [] = []"
| "py_join sep [x] = x"
| "py_join sep (x # y # ys) = x @ sep @ py_join sep (y # ys)"

text \<open>Truthiness of an optional string: \<open>None\<close> and \<open>''\<close> are false.\<close>

definition truthy :: "string option \<Rightarrow> bool" where
  "truthy v = (case v of None \<Rightarrow> False | Some s \<Rightarrow> s \<noteq> [])"

text \<open>
  A Python \<open>set\<close> of strings is kept as the list of its elements in the order they were
  first added. \<open>list(s)\<close> walks the hash table: the order is fixed for one run of the
  interpreter but is no function of the insertion order alone (string hashes are salted
  per process), so it is a parameter of the model, \<open>set_order\<close> below.
\<close>

definition set_add :: "string \<Rightarrow> string list \<Rightarrow> string list" where
  "set_add x s = (if x \<in> set s then s else s @ [x])"

text \<open>
  \<open>re.search(pattern, text, flags) is not None\<close>. The \<open>re\<close> module is Python's library,
  not code of the repository: the engine is a parameter. Its first argument says
  whether \<open>re.IGNORECASE\<close> is passed.
\<close>

type_synonym regex_engine = "bool \<Rightarrow> string \<Rightarrow> string \<Rightarrow> bool"

section \<open>config.py\<close>

text \<open>
  The three characters a string literal of this theory cannot hold: the backslash, the
  double quote and the single quote. The patterns below are the raw strings of the
  source, character by character.
\<close>

definition BSL :: char where "BSL = CHR 0x5C"
definition DQ :: char where "DQ = CHR 0x22"
definition SQ :: char where "SQ = CHR 0x27"

definition LANGUAGE_LABELS :: "(string \<times> string) list" where
  "LANGUAGE_LABELS =
     [(''.py'', ''python''), (''.pyx'', ''python''),
      (''.js'', ''javascript''), (''.jsx'', ''javascript''),
      (''.ts'', ''typescript''), (''.tsx'', ''typescript''),
      (''.java'', ''java''), (''.kt'', ''kotlin''),
      (''.cpp'', ''c++''), (''.c'', ''c++''), (''.h'', ''c++''),
      (''.go'', ''golang''),
      (''.rs'', ''rust''),
      (''.rb'', ''ruby''),
      (''.php'', ''php''),
      (''.swift'', ''swift''),
      (''.cs'', ''c#''),
      (''.scala'', ''scala''),
      (''.r'', ''r'')]"

definition CONTENT_LABELS :: "(string \<times> string list) list" where
  "CONTENT_LABELS =
     [(''documentation'', [''.md'', ''.txt'', ''.rst'', ''.adoc'']),
      (''config'', [''.yml'', ''.yaml'', ''.json'', ''.toml'', ''.ini'', ''.cfg'']),
      (''styling'', [''.css'', ''.scss'', ''.sass'', ''.less'']),
      (''frontend'', [''.html'', ''.htm'', ''.vue'', ''.svelte'']),
      (''database'', [''.sql'', ''.db'', ''.sqlite'']),
      (''docker'', [''dockerfile'', ''docker-compose'']),
      (''ci/cd'', [''.github'', ''.gitlab-ci'', ''.travis'', ''.circleci''])]"

text \<open>
  \<open>SECURITY_PATTERNS\<close>: a dict, walked by \<open>.items()\<close> in the order it is written.
  The quoted-value tail of the first four patterns is
  \<^verbatim>\<open>\s*=\s*["\'][^"\']+["\']\<close>.
\<close>

definition quoted_value :: string where
  "quoted_value =
     [BSL] @ ''s*='' @ [BSL] @ ''s*['' @ [DQ, BSL, SQ] @ ''][^'' @ [DQ, BSL, SQ]
     @ '']+['' @ [DQ, BSL, SQ] @ '']''"

definition quoted_concat :: string where
  \<comment> \<open>\<^verbatim>\<open>\s*\(\s*["\'].*\+.*["\']\<close>\<close>
  "quoted_concat =
     [BSL] @ ''s*'' @ [BSL] @ ''('' @ [BSL] @ ''s*['' @ [DQ, BSL, SQ] @ ''].*'' @ [BSL]
     @ ''+.*['' @ [DQ, BSL, SQ] @ '']''"

definition SECURITY_PATTERNS :: "(string \<times> string list) list" where
  "SECURITY_PATTERNS =
     [(''hardcoded_secrets'',
         [''password'' @ quoted_value,
          ''api_key'' @ quoted_value,
          ''secret'' @ quoted_value,
          ''token'' @ quoted_value]),
      (''dangerous_functions'',
         [''eval'' @ [BSL] @ ''s*'' @ [BSL] @ ''('',
          ''exec'' @ [BSL] @ ''s*'' @ [BSL] @ ''('',
          ''system'' @ [BSL] @ ''s*'' @ [BSL] @ ''('',
          ''shell_exec'' @ [BSL] @ ''s*'' @ [BSL] @ ''('']),
      (''sql_injection'',
         [''execute'' @ quoted_concat,
          ''query'' @ quoted_concat])]"

section \<open>utils.py: the diff analysers\<close>

text \<open>
  One entry of the platform's list of changed files: \<open>file['filename']\<close>, and the
  optional keys \<open>changes\<close> and \<open>patch\<close> (\<open>None\<close> when the key is absent or null).
\<close>

record file_change =
  filename :: string
  changes :: "int option"
  patch :: "string option"

text \<open>\<open>f.get('changes', 0)\<close>\<close>

definition get_changes :: "file_change \<Rightarrow> int" where
  "get_changes f = (case changes f of None \<Rightarrow> 0 | Some n \<Rightarrow> n)"

record complexity =
  score :: int
  total_lines :: int
  file_count :: nat
  risk_level :: string

definition analyze_code_complexity :: "file_change list \<Rightarrow> complexity" where
  "analyze_code_complexity files =
     (let total_lines = py_sum (map get_changes files);
          file_count = length files;
          complexity_score = 0;
          complexity_score =
            (if total_lines > 500 then complexity_score + 3
             else if total_lines > 200 then complexity_score + 2
             else if total_lines > 50 then complexity_score + 1
             else complexity_score);
          complexity_score =
            (if file_count > 10 then complexity_score + 2
             else if file_count > 5 then complexity_score + 1
             else complexity_score)
      in \<lparr>score = complexity_score,
          total_lines = total_lines,
          file_count = file_count,
          risk_level =
            (if complexity_score \<ge> 4 then ''high''
             else if complexity_score \<ge> 2 then ''medium'' else ''low'')\<rparr>)"

text \<open>
  \<open>detect_breaking_changes\<close>. The patterns are
  \<^verbatim>\<open>def\s+\w+\([^)]*\)\s*->\<close>, \<^verbatim>\<open>class\s+\w+\([^)]*\):\<close>,
  \<^verbatim>\<open>import\s+\w+\<close>, \<^verbatim>\<open>from\s+\w+\s+import\<close> and \<^verbatim>\<open>@\w+\<close>.
\<close>

definition breaking_patterns :: "string list" where
  "breaking_patterns =
     [''def'' @ [BSL] @ ''s+'' @ [BSL] @ ''w+'' @ [BSL] @ ''([^)]*'' @ [BSL] @ '')''
        @ [BSL] @ ''s*->'',
      ''class'' @ [BSL] @ ''s+'' @ [BSL] @ ''w+'' @ [BSL] @ ''([^)]*'' @ [BSL] @ ''):'',
      ''import'' @ [BSL] @ ''s+'' @ [BSL] @ ''w+'',
      ''from'' @ [BSL] @ ''s+'' @ [BSL] @ ''w+'' @ [BSL] @ ''s+import'',
      ''@'' @ [BSL] @ ''w+'']"

text \<open>
  The inner loop \<open>for pattern in breaking_patterns\<close> with its \<open>break\<close>: the list of
  breaking files after the loop. The first pattern that matches appends the file's name
  and ends the loop.
\<close>

fun breaking_pattern_loop ::
  "regex_engine \<Rightarrow> string list \<Rightarrow> file_change \<Rightarrow> string \<Rightarrow> string list \<Rightarrow> string list"
where
  "breaking_pattern_loop re [] f p breaking_files = breaking_files"
| "breaking_pattern_loop re (pattern # patterns) f p breaking_files =
     (if re False pattern p then breaking_files @ [filename f]
      else breaking_pattern_loop re patterns f p breaking_files)"

fun breaking_file_loop ::
  "regex_engine \<Rightarrow> file_change list \<Rightarrow> string list \<Rightarrow> string list"
where
  "breaking_file_loop re [] breaking_files = breaking_files"
| "breaking_file_loop re (f # files) breaking_files =
     breaking_file_loop re files
       (if truthy (patch f)
        then breaking_pattern_loop re breaking_patterns f (the (patch f)) breaking_files
        else breaking_files)"

definition detect_breaking_changes :: "regex_engine \<Rightarrow> file_change list \<Rightarrow> string list" where
  "detect_breaking_changes re files = breaking_file_loop re files []"

text \<open>\<open>scan_for_vulnerabilities\<close>: three nested loops appending to one list.\<close>

record vulnerability =
  vuln_type :: string
  vuln_file :: string
  severity :: string

fun scan_pattern_loop ::
  "regex_engine \<Rightarrow> string \<Rightarrow> string list \<Rightarrow> string \<Rightarrow> string
     \<Rightarrow> vulnerability list \<Rightarrow> vulnerability list"
where
  "scan_pattern_loop re category [] patch_content fname vulnerabilities = vulnerabilities"
| "scan_pattern_loop re category (pattern # patterns) patch_content fname vulnerabilities =
     scan_pattern_loop re category patterns patch_content fname
       (if re True pattern patch_content
        then vulnerabilities
             @ [\<lparr>vuln_type = category,
                 vuln_file = fname,
                 severity = (if category = ''hardcoded_secrets'' then ''high''
                             else ''medium'')\<rparr>]
        else vulnerabilities)"

fun scan_category_loop ::
  "regex_engine \<Rightarrow> (string \<times> string list) list \<Rightarrow> string \<Rightarrow> string
     \<Rightarrow> vulnerability list \<Rightarrow> vulnerability list"
where
  "scan_category_loop re [] patch_content fname vulnerabilities = vulnerabilities"
| "scan_category_loop re ((category, patterns) # items) patch_content fname vulnerabilities =
     scan_category_loop re items patch_content fname
       (scan_pattern_loop re category patterns patch_content fname vulnerabilities)"

fun scan_file_loop ::
  "regex_engine \<Rightarrow> file_change list \<Rightarrow> vulnerability list \<Rightarrow> vulnerability list"
where
  "scan_file_loop re [] vulnerabilities = vulnerabilities"
| "scan_file_loop re (f # files) vulnerabilities =
     scan_file_loop re files
       (if \<not> truthy (patch f) then vulnerabilities
        else scan_category_loop re SECURITY_PATTERNS (py_lower (the (patch f)))
               (filename f) vulnerabilities)"

definition scan_for_vulnerabilities ::
  "regex_engine \<Rightarrow> file_change list \<Rightarrow> vulnerability list"
where
  "scan_for_vulnerabilities re files = scan_file_loop re files []"

text \<open>
  \<open>generate_pr_summary\<close> returns a text; the model keeps what the text is made of.
  The extension of a file name is \<open>'.' + name.split('.')[-1]\<close> when the name has a dot
  and \<open>''\<close> otherwise.
\<close>

definition file_ext :: "string \<Rightarrow> string" where
  "file_ext name = (if py_in ''.'' name then ''.'' @ last (py_split ''.'' name) else '''')"

fun summary_language_loop :: "file_change list \<Rightarrow> string list \<Rightarrow> string list" where
  "summary_language_loop [] languages = languages"
| "summary_language_loop (f # files) languages =
     summary_language_loop files
       (let ext = file_ext (filename f)
        in if ext \<in> set [''.py'', ''.js'', ''.ts'', ''.java'', ''.go'', ''.rs'', ''.rb'']
           then set_add (drop 1 ext) languages else languages)"

record pr_summary =
  summary_files_changed :: nat
  summary_lines_changed :: int
  summary_complexity :: string
  summary_breaking :: "string list"
  summary_languages :: "string list"

text \<open>
  The line of breaking changes shows \<open>breaking_files[:3]\<close> and is left out when the
  list is empty; the line of languages shows \<open>sorted(languages)\<close> and is left out when
  the set is empty.
\<close>

definition generate_pr_summary ::
  "regex_engine \<Rightarrow> file_change list \<Rightarrow> string \<Rightarrow> pr_summary"
where
  "generate_pr_summary re files pr_title =
     (let c = analyze_code_complexity files;
          breaking_files = detect_breaking_changes re files
      in \<lparr>summary_files_changed = file_count c,
          summary_lines_changed = total_lines c,
          summary_complexity = risk_level c,
          summary_breaking = take 3 breaking_files,
          summary_languages = sort (summary_language_loop files [])\<rparr>)"

section \<open>The platform: requests, responses and what else the handlers depend on\<close>

text \<open>
  The URL of a request, by its template: for instance \<open>Issue_labels repo n\<close> is
  \<^verbatim>\<open>/repos/{repo}/issues/{n}/labels\<close>.
\<close>

datatype endpoint =
    Pull_files string int
  | Issue_labels string int
  | Issue_comments string int
  | Issue_assignees string int
  | Issue string int
  | Requested_reviewers string int
  | File_contents string string
  | Path_commits string string nat
  | Author_pulls string string
  | Repository string
  | Closed_pulls string nat

text \<open>
  The findings of \<open>check_pr_requirements\<close> and of bot.py's \<open>security_scan_pr\<close>, each a
  fixed sentence around the names it carries.
\<close>

datatype requirement_issue =
    Missing_tests
  | Large_files "string list"
  | Missing_documentation

datatype security_issue =
    Hardcoded_password string
  | Api_key_or_secret string
  | Dangerous_eval_exec string
  | Sql_injection_risk string

text \<open>
  The body of a comment, by its template and the values put into it. \<open>Joke i\<close> and
  \<open>Quote i\<close> are the entries number \<open>i\<close> of the lists of jokes and quotes.
\<close>

datatype message =
    Welcome_bot string string
  | Welcome_app string
  | Automated_review "requirement_issue list"
  | Security_results_bot "security_issue list"
  | Security_results_app "vulnerability list"
  | AI_review string
  | Summary pr_summary
  | Thanks string
  | Help_bot
  | Help_app
  | Assigned_to string
  | Added_label string
  | Closed_by string
  | Changelog_bot "(string \<times> int \<times> string) list"
  | Changelog_app "(string \<times> int \<times> string) list"
  | Joke nat
  | Quote nat

datatype request_data =
    Labels "string list"
  | Body message
  | Assignees "string list"
  | Reviewers "string list"
  | State string

text \<open>
  One call of \<open>github_api\<close>: the HTTP method, the URL, the installation whose token
  authorises it (github_app.py; \<open>None\<close> for bot.py, which uses one fixed token) and the
  JSON data.
\<close>

datatype api_call = Api_call string endpoint "int option" "request_data option"

record commit =
  commit_author :: "string option"

record closed_pull =
  merged_at :: "string option"
  pull_title :: string
  pull_number :: int
  pull_user_login :: string

text \<open>
  What a handler reads from outside: the platform's answers to its GET requests (the
  changed files of a pull request, whether the contents lookup of a path gave a
  non-empty answer, the commits of a path with the login of each commit's author or
  \<open>None\<close> for a null author, how many pull requests an author has, the repository's
  name, the closed pull requests), the regular expression engine, the order in which a
  set is listed, whether an OpenAI key is configured and what the review request
  returns (\<open>None\<close> when it fails), and the index \<open>random.choice\<close> draws from a list of
  a given length.
\<close>

record env =
  pull_files :: "string \<Rightarrow> int \<Rightarrow> file_change list"
  file_contents :: "string \<Rightarrow> string \<Rightarrow> bool"
  path_commits :: "string \<Rightarrow> string \<Rightarrow> commit list"
  author_pulls :: "string \<Rightarrow> string \<Rightarrow> nat"
  repository_name :: "string \<Rightarrow> string option"
  closed_pulls :: "string \<Rightarrow> nat \<Rightarrow> closed_pull list"
  re_search :: regex_engine
  set_order :: "string list \<Rightarrow> string list"
  openai_key :: bool
  openai_review :: "string \<Rightarrow> string option"
  random_choice :: "nat \<Rightarrow> nat"

text \<open>
  The parsed delivery: the \<open>X-GitHub-Event\<close> header and the JSON payload. The keys a
  handler reads by subscript are fields that are always there (a well-formed
  delivery); the keys it reads with \<open>.get\<close> or tests for \<open>None\<close> are optional.
\<close>

record pull_request_payload =
  pr_number :: int
  pr_user_login :: string
  pr_merged :: bool
  pr_title :: string

record issue_payload =
  issue_number :: int
  issue_title :: string
  issue_body :: "string option"

record comment_payload =
  comment_body :: string
  comment_user_login :: string

record payload =
  action :: string
  repository_full_name :: string
  installation_id :: "int option"
  payload_pull_request :: pull_request_payload
  payload_issue :: issue_payload
  payload_comment :: comment_payload

record request =
  event_header :: "string option"
  request_json :: payload

text \<open>
  What a handler does: the calls it made, in order, and how it ended, with the
  exception that escaped it or with the HTTP status it returned.
\<close>

type_synonym outcome = "api_call list \<times> (py_error + nat)"

section \<open>bot.py\<close>

definition bot_api :: "string \<Rightarrow> endpoint \<Rightarrow> request_data option \<Rightarrow> api_call" where
  "bot_api method url data = Api_call method url None data"

subsection \<open>\<open>auto_label_pr\<close>\<close>

definition language_label :: "string \<Rightarrow> string option" where
  "language_label name =
     (if endswith_any name [''.py'', ''.pyx''] then Some ''python''
      else if endswith_any name [''.js'', ''.jsx'', ''.ts'', ''.tsx''] then Some ''javascript''
      else if endswith_any name [''.java'', ''.kt''] then Some ''java''
      else if endswith_any name [''.cpp'', ''.c'', ''.h''] then Some ''c++''
      else if suffix ''.go'' name then Some ''golang''
      else if suffix ''.rs'' name then Some ''rust''
      else if suffix ''.rb'' name then Some ''ruby''
      else if suffix ''.php'' name then Some ''php''
      else if suffix ''.swift'' name then Some ''swift''
      else None)"

definition file_type_label :: "string \<Rightarrow> string option" where
  "file_type_label name =
     (if endswith_any name [''.md'', ''.txt'', ''.rst''] then Some ''documentation''
      else if py_in ''test'' name \<or> endswith_any name [''.test.js'', ''_test.py'']
        then Some ''tests''
      else if endswith_any name [''.yml'', ''.yaml'', ''.json'', ''.toml''] then Some ''config''
      else if endswith_any name [''.css'', ''.scss'', ''.sass''] then Some ''styling''
      else if endswith_any name [''.html'', ''.htm''] then Some ''frontend''
      else if py_in ''docker'' name \<or> name = ''dockerfile'' then Some ''docker''
      else if suffix ''.sql'' name then Some ''database''
      else if py_in ''api'' name \<or> py_in ''endpoint'' name then Some ''api''
      else if py_in ''security'' name \<or> py_in ''auth'' name then Some ''security''
      else if py_in ''performance'' name \<or> py_in ''optimize'' name then Some ''performance''
      else None)"

definition directory_label :: "string \<Rightarrow> string option" where
  "directory_label name =
     (if py_in ''/frontend/'' name \<or> py_in ''/ui/'' name then Some ''frontend''
      else if py_in ''/backend/'' name \<or> py_in ''/server/'' name then Some ''backend''
      else if py_in ''/mobile/'' name \<or> py_in ''/android/'' name \<or> py_in ''/ios/'' name
        then Some ''mobile''
      else if py_in ''/infra/'' name \<or> py_in ''/deploy/'' name then Some ''infrastructure''
      else None)"

definition add_label :: "string option \<Rightarrow> string list \<Rightarrow> string list" where
  "add_label l labels = (case l of None \<Rightarrow> labels | Some x \<Rightarrow> set_add x labels)"

fun label_loop :: "file_change list \<Rightarrow> string list \<times> int \<Rightarrow> string list \<times> int" where
  "label_loop [] (labels, lines_changed) = (labels, lines_changed)"
| "label_loop (f # files) (labels, lines_changed) =
     (let name = py_lower (filename f)
      in label_loop files
           (add_label (directory_label name)
              (add_label (file_type_label name)
                 (add_label (language_label name) labels)),
            lines_changed + get_changes f))"

definition auto_label_pr_bot ::
  "env \<Rightarrow> string \<Rightarrow> int \<Rightarrow> file_change list \<Rightarrow> api_call list"
where
  "auto_label_pr_bot e repo n files =
     (let (labels, lines_changed) = label_loop files ([], 0);
          labels =
            (if lines_changed > 500 then set_add ''large'' labels
             else if lines_changed > 100 then set_add ''medium'' labels
             else set_add ''small'' labels)
      in if labels \<noteq> []
         then [bot_api ''POST'' (Issue_labels repo n) (Some (Labels (set_order e labels)))]
         else [])"

subsection \<open>\<open>auto_assign_reviewers\<close>\<close>

text \<open>The loop \<open>for commit in commits[:3]\<close>, over the set of reviewers.\<close>

fun commit_loop :: "string \<Rightarrow> commit list \<Rightarrow> string list \<Rightarrow> string list" where
  "commit_loop author [] reviewers = reviewers"
| "commit_loop author (c # commits) reviewers =
     commit_loop author commits
       (case commit_author c of
          None \<Rightarrow> reviewers
        | Some login \<Rightarrow> if login \<noteq> author then set_add login reviewers else reviewers)"

text \<open>
  The loop over the files: the set of reviewers and the calls made so far. Every file
  costs a contents lookup, and a commit lookup when the first was not empty.
\<close>

fun reviewer_loop ::
  "env \<Rightarrow> string \<Rightarrow> string \<Rightarrow> file_change list \<Rightarrow> string list \<times> api_call list
     \<Rightarrow> string list \<times> api_call list"
where
  "reviewer_loop e repo author [] (reviewers, calls) = (reviewers, calls)"
| "reviewer_loop e repo author (f # files) (reviewers, calls) =
     reviewer_loop e repo author files
       (if file_contents e repo (filename f)
        then (commit_loop author (take 3 (path_commits e repo (filename f))) reviewers,
              calls @ [bot_api ''GET'' (File_contents repo (filename f)) None,
                       bot_api ''GET'' (Path_commits repo (filename f) 5) None])
        else (reviewers, calls @ [bot_api ''GET'' (File_contents repo (filename f)) None]))"

definition auto_assign_reviewers ::
  "env \<Rightarrow> string \<Rightarrow> int \<Rightarrow> file_change list \<Rightarrow> string \<Rightarrow> api_call list"
where
  "auto_assign_reviewers e repo n files author =
     (let (reviewers, calls) = reviewer_loop e repo author files ([], [])
      in if reviewers \<noteq> []
         then calls @ [bot_api ''POST'' (Requested_reviewers repo n)
                         (Some (Reviewers (take 3 (set_order e reviewers))))]
         else calls)"

subsection \<open>The other steps for an opened pull request\<close>

definition welcome_contributor :: "env \<Rightarrow> string \<Rightarrow> int \<Rightarrow> string \<Rightarrow> api_call list" where
  "welcome_contributor e repo n author =
     bot_api ''GET'' (Author_pulls repo author) None
     # (if author_pulls e repo author = 1
        then [bot_api ''GET'' (Repository repo) None,
              bot_api ''POST'' (Issue_comments repo n)
                (Some (Body (Welcome_bot author
                   (case repository_name e repo of
                      None \<Rightarrow> ''this project'' | Some name \<Rightarrow> name))))]
        else [])"

definition check_pr_requirements :: "string \<Rightarrow> int \<Rightarrow> file_change list \<Rightarrow> api_call list" where
  "check_pr_requirements repo n files =
     (let issues = [];
          has_tests = list_ex (\<lambda>f. py_in ''test'' (py_lower (filename f))) files;
          has_code =
            list_ex (\<lambda>f. endswith_any (filename f) [''.py'', ''.js'', ''.ts'', ''.java'', ''.go''])
              files;
          issues = (if has_code \<and> \<not> has_tests then issues @ [Missing_tests] else issues);
          large_files = map filename (filter (\<lambda>f. get_changes f > 300) files);
          issues =
            (if large_files \<noteq> [] then issues @ [Large_files (take 3 large_files)]
             else issues);
          has_docs = list_ex (\<lambda>f. endswith_any (filename f) [''.md'', ''.rst'', ''.txt'']) files;
          issues =
            (if length files > 5 \<and> \<not> has_docs then issues @ [Missing_documentation]
             else issues)
      in if issues \<noteq> []
         then [bot_api ''POST'' (Issue_comments repo n) (Some (Body (Automated_review issues)))]
         else [])"

definition security_checks :: "string \<Rightarrow> string \<Rightarrow> security_issue list" where
  "security_checks p name =
     (if py_in ''password'' p \<and> py_in ''='' p then [Hardcoded_password name] else [])
     @ (if py_in ''api_key'' p \<or> py_in ''secret'' p then [Api_key_or_secret name] else [])
     @ (if py_in ''eval('' p \<or> py_in ''exec('' p then [Dangerous_eval_exec name] else [])
     @ (if py_in ''sql'' p \<and> (py_in ''drop'' p \<or> py_in ''delete'' p)
        then [Sql_injection_risk name] else [])"

fun security_scan_loop :: "file_change list \<Rightarrow> security_issue list \<Rightarrow> security_issue list" where
  "security_scan_loop [] security_issues = security_issues"
| "security_scan_loop (f # files) security_issues =
     security_scan_loop files
       (if truthy (patch f)
        then security_issues @ security_checks (py_lower (the (patch f))) (filename f)
        else security_issues)"

definition security_scan_pr :: "file_change list \<Rightarrow> security_issue list" where
  "security_scan_pr files = security_scan_loop files []"

text \<open>
  \<open>ai_code_review(diff_text)\<close>: nothing without a key; otherwise what the request,
  made with the first 2000 characters of the diff, returns.
\<close>

definition ai_code_review_bot :: "env \<Rightarrow> string \<Rightarrow> string option" where
  "ai_code_review_bot e diff_text =
     (if \<not> openai_key e then None else openai_review e (take 2000 diff_text))"

definition get_patch :: "file_change \<Rightarrow> string" where
  \<comment> \<open>\<open>f.get('patch', '')\<close>\<close>
  "get_patch f = (case patch f of None \<Rightarrow> '''' | Some p \<Rightarrow> p)"

definition pull_request_opened_bot ::
  "env \<Rightarrow> string \<Rightarrow> int \<Rightarrow> string \<Rightarrow> api_call list"
where
  "pull_request_opened_bot e repo n author =
     (let files = pull_files e repo n;
          security_issues = security_scan_pr files
      in [bot_api ''GET'' (Pull_files repo n) None]
         @ auto_label_pr_bot e repo n files
         @ auto_assign_reviewers e repo n files author
         @ welcome_contributor e repo n author
         @ check_pr_requirements repo n files
         @ (if security_issues \<noteq> []
            then [bot_api ''POST'' (Issue_comments repo n)
                    (Some (Body (Security_results_bot security_issues)))]
            else [])
         @ (if openai_key e \<and> length files \<le> 5
            then (let diff_text = py_join [CHR 0x0A] (map get_patch (take 3 files))
                  in if truthy (ai_code_review_bot e diff_text)
                     then [bot_api ''POST'' (Issue_comments repo n)
                             (Some (Body (AI_review (the (ai_code_review_bot e diff_text)))))]
                     else [])
            else []))"

subsection \<open>Opened issues\<close>

definition issue_labels_bot :: "string \<Rightarrow> string list" where
  "issue_labels_bot title =
     (let labels = [];
          labels =
            (if py_in ''bug'' title \<or> py_in ''error'' title \<or> py_in ''broken'' title
             then labels @ [''bug''] else labels);
          labels =
            (if py_in ''feature'' title \<or> py_in ''enhancement'' title
             then labels @ [''enhancement''] else labels);
          labels =
            (if py_in ''question'' title \<or> py_in ''?'' title
             then labels @ [''question''] else labels);
          labels =
            (if py_in ''help'' title \<or> py_in ''support'' title
             then labels @ [''help wanted''] else labels);
          labels =
            (if py_in ''urgent'' title \<or> py_in ''critical'' title
             then labels @ [''priority: high''] else labels)
      in labels)"

text \<open>
  The handler also computes \<open>body = issue['body'].lower() if issue['body'] else ''\<close>;
  nothing reads it afterwards.
\<close>

definition issue_opened_bot :: "payload \<Rightarrow> api_call list" where
  "issue_opened_bot p =
     (let iss = payload_issue p;
          repo = repository_full_name p;
          title = py_lower (issue_title iss);
          body = (if truthy (issue_body iss) then py_lower (the (issue_body iss)) else '''');
          labels = issue_labels_bot title
      in if labels \<noteq> []
         then [bot_api ''POST'' (Issue_labels repo (issue_number iss)) (Some (Labels labels))]
         else [])"

subsection \<open>Comment commands\<close>

fun changelog_entries :: "closed_pull list \<Rightarrow> (string \<times> int \<times> string) list" where
  "changelog_entries [] = []"
| "changelog_entries (pr # prs) =
     (if truthy (merged_at pr)
      then (pull_title pr, pull_number pr, pull_user_login pr) # changelog_entries prs
      else changelog_entries prs)"

definition generate_changelog :: "env \<Rightarrow> string \<Rightarrow> message" where
  "generate_changelog e repo = Changelog_bot (changelog_entries (take 10 (closed_pulls e repo 20)))"

text \<open>
  The branch \<open>elif cmd.startswith('/assign')\<close>:
  \<open>assignee = comment.split('@')[1].split()[0]\<close> under the guard \<open>'@' in comment\<close>.
\<close>

definition assign_command_bot :: "string \<Rightarrow> int \<Rightarrow> string \<Rightarrow> outcome" where
  "assign_command_bot repo n comment =
     (if py_in ''@'' comment
      then (case py_index (py_split ''@'' comment) 1 of
              Inl err \<Rightarrow> ([], Inl err)
            | Inr after_at \<Rightarrow>
                (case py_index (py_split_ws after_at) 0 of
                   Inl err \<Rightarrow> ([], Inl err)
                 | Inr assignee \<Rightarrow>
                     ([bot_api ''POST'' (Issue_assignees repo n) (Some (Assignees [assignee])),
                       bot_api ''POST'' (Issue_comments repo n)
                         (Some (Body (Assigned_to assignee)))],
                      Inr 200)))
      else ([], Inr 200))"

text \<open>
  The branch \<open>elif cmd.startswith('/label')\<close>:
  \<open>label = comment.split('/label ')[1].strip()\<close>, with no guard.
\<close>

definition label_command_bot :: "string \<Rightarrow> int \<Rightarrow> string \<Rightarrow> outcome" where
  "label_command_bot repo n comment =
     (case py_index (py_split ''/label '' comment) 1 of
        Inl err \<Rightarrow> ([], Inl err)
      | Inr arg \<Rightarrow>
          (let label = py_strip arg
           in ([bot_api ''POST'' (Issue_labels repo n) (Some (Labels [label])),
                bot_api ''POST'' (Issue_comments repo n) (Some (Body (Added_label label)))],
               Inr 200)))"

definition comment_created_bot :: "env \<Rightarrow> payload \<Rightarrow> outcome" where
  "comment_created_bot e p =
     (let comment = py_strip (comment_body (payload_comment p));
          repo = repository_full_name p;
          n = issue_number (payload_issue p);
          commenter = comment_user_login (payload_comment p)
      in if prefix ''/'' comment
         then (case py_index (py_split_ws (py_lower comment)) 0 of
                 Inl err \<Rightarrow> ([], Inl err)
               | Inr cmd \<Rightarrow>
                   if cmd = ''/help''
                   then ([bot_api ''POST'' (Issue_comments repo n) (Some (Body Help_bot))],
                         Inr 200)
                   else if prefix ''/assign'' cmd then assign_command_bot repo n comment
                   else if prefix ''/label'' cmd then label_command_bot repo n comment
                   else if cmd = ''/close''
                   then ([bot_api ''PATCH'' (Issue repo n) (Some (State ''closed'')),
                          bot_api ''POST'' (Issue_comments repo n)
                            (Some (Body (Closed_by commenter)))],
                         Inr 200)
                   else if cmd = ''/changelog''
                   then ([bot_api ''GET'' (Closed_pulls repo 20) None,
                          bot_api ''POST'' (Issue_comments repo n)
                            (Some (Body (generate_changelog e repo)))],
                         Inr 200)
                   else if cmd = ''/joke''
                   then ([bot_api ''POST'' (Issue_comments repo n)
                            (Some (Body (Joke (random_choice e 4))))],
                         Inr 200)
                   else if cmd = ''/motivate''
                   then ([bot_api ''POST'' (Issue_comments repo n)
                            (Some (Body (Quote (random_choice e 4))))],
                         Inr 200)
                   else ([], Inr 200))
         else ([], Inr 200))"

subsection \<open>The webhook of bot.py\<close>

definition webhook_bot :: "env \<Rightarrow> request \<Rightarrow> outcome" where
  "webhook_bot e r =
     (let event = event_header r;
          p = request_json r
      in if event = Some ''pull_request''
         then (let act = action p;
                   repo = repository_full_name p;
                   pr = payload_pull_request p;
                   n = pr_number pr;
                   author = pr_user_login pr
               in if act = ''opened''
                  then (pull_request_opened_bot e repo n author, Inr 200)
                  else if act = ''closed'' \<and> pr_merged pr
                  then ([bot_api ''POST'' (Issue_comments repo n) (Some (Body (Thanks author)))],
                        Inr 200)
                  else ([], Inr 200))
         else if event = Some ''issues''
         then (if action p = ''opened'' then (issue_opened_bot p, Inr 200)
               else ([], Inr 200))
         else if event = Some ''issue_comment'' \<and> action p = ''created''
         then comment_created_bot e p
         else ([], Inr 200))"

section \<open>github_app.py\<close>

definition app_api ::
  "string \<Rightarrow> endpoint \<Rightarrow> int \<Rightarrow> request_data option \<Rightarrow> api_call"
where
  "app_api method url installation data = Api_call method url (Some installation) data"

subsection \<open>\<open>auto_label_pr\<close>\<close>

fun content_label_loop ::
  "(string \<times> string list) list \<Rightarrow> string \<Rightarrow> string list \<Rightarrow> string list"
where
  "content_label_loop [] name labels = labels"
| "content_label_loop ((label, extensions) # items) name labels =
     content_label_loop items name
       (if list_ex (\<lambda>x. suffix x name \<or> py_in x name) extensions
        then set_add label labels else labels)"

fun app_label_loop :: "file_change list \<Rightarrow> string list \<Rightarrow> string list" where
  "app_label_loop [] labels = labels"
| "app_label_loop (f # files) labels =
     (let name = py_lower (filename f);
          ext = file_ext name
      in app_label_loop files
           (content_label_loop CONTENT_LABELS name
              (add_label (map_of LANGUAGE_LABELS ext) labels)))"

definition auto_label_pr_app ::
  "env \<Rightarrow> string \<Rightarrow> int \<Rightarrow> file_change list \<Rightarrow> int \<Rightarrow> api_call list"
where
  "auto_label_pr_app e repo n files installation =
     (let lines_changed = py_sum (map get_changes files);
          labels = app_label_loop files [];
          labels =
            (if lines_changed > 500 then set_add ''size/large'' labels
             else if lines_changed > 100 then set_add ''size/medium'' labels
             else set_add ''size/small'' labels)
      in if labels \<noteq> []
         then [app_api ''POST'' (Issue_labels repo n) installation
                 (Some (Labels (set_order e labels)))]
         else [])"

subsection \<open>The other steps for an opened pull request\<close>

definition security_scan_and_comment ::
  "env \<Rightarrow> string \<Rightarrow> int \<Rightarrow> file_change list \<Rightarrow> int \<Rightarrow> api_call list"
where
  "security_scan_and_comment e repo n files installation =
     (let vulnerabilities = scan_for_vulnerabilities (re_search e) files
      in if vulnerabilities \<noteq> []
         then [app_api ''POST'' (Issue_comments repo n) installation
                 (Some (Body (Security_results_app vulnerabilities)))]
         else [])"

text \<open>
  \<open>ai_code_review(files, ...)\<close>: nothing without a key or for more than five files;
  otherwise the request is made with the first 1000 characters of the first three
  patches, and an exception anywhere in the \<open>try\<close> leaves no comment.
\<close>

definition ai_code_review_app ::
  "env \<Rightarrow> file_change list \<Rightarrow> int \<Rightarrow> string \<Rightarrow> int \<Rightarrow> api_call list"
where
  "ai_code_review_app e files installation repo n =
     (if \<not> openai_key e \<or> length files > 5 then []
      else (let diff_text =
                  py_join [CHR 0x0A] (map (\<lambda>f. take 1000 (get_patch f)) (take 3 files))
            in case openai_review e diff_text of
                 None \<Rightarrow> []
               | Some review \<Rightarrow>
                   [app_api ''POST'' (Issue_comments repo n) installation
                      (Some (Body (AI_review review)))]))"

definition pull_request_opened_app ::
  "env \<Rightarrow> string \<Rightarrow> int \<Rightarrow> string \<Rightarrow> string \<Rightarrow> int \<Rightarrow> api_call list"
where
  "pull_request_opened_app e repo n author title installation =
     (let files = pull_files e repo n
      in [app_api ''GET'' (Pull_files repo n) installation None]
         @ auto_label_pr_app e repo n files installation
         @ security_scan_and_comment e repo n files installation
         @ [app_api ''GET'' (Author_pulls repo author) installation None]
         @ (if author_pulls e repo author = 1
            then [app_api ''POST'' (Issue_comments repo n) installation
                    (Some (Body (Welcome_app author)))]
            else [])
         @ ai_code_review_app e files installation repo n
         @ [app_api ''POST'' (Issue_comments repo n) installation
              (Some (Body (Summary (generate_pr_summary (re_search e) files title))))])"

subsection \<open>Opened issues\<close>

definition issue_labels_app :: "string \<Rightarrow> string list" where
  "issue_labels_app title =
     (let labels = [];
          labels =
            (if list_ex (\<lambda>word. py_in word title) [''bug'', ''error'', ''broken'', ''crash'']
             then labels @ [''bug''] else labels);
          labels =
            (if list_ex (\<lambda>word. py_in word title) [''feature'', ''enhancement'', ''add'']
             then labels @ [''enhancement''] else labels);
          labels =
            (if list_ex (\<lambda>word. py_in word title) [''question'', ''?'', ''how'']
             then labels @ [''question''] else labels);
          labels =
            (if list_ex (\<lambda>word. py_in word title) [''urgent'', ''critical'', ''important'']
             then labels @ [''priority: high''] else labels)
      in labels)"

definition issue_opened_app :: "payload \<Rightarrow> int \<Rightarrow> api_call list" where
  "issue_opened_app p installation =
     (let iss = payload_issue p;
          repo = repository_full_name p;
          title = py_lower (issue_title iss);
          labels = issue_labels_app title
      in if labels \<noteq> []
         then [app_api ''POST'' (Issue_labels repo (issue_number iss)) installation
                 (Some (Labels labels))]
         else [])"

subsection \<open>Comment commands\<close>

definition assign_command_app :: "string \<Rightarrow> int \<Rightarrow> string \<Rightarrow> int \<Rightarrow> outcome" where
  "assign_command_app repo n comment installation =
     (case py_index (py_split ''@'' comment) 1 of
        Inl err \<Rightarrow> ([], Inl err)
      | Inr after_at \<Rightarrow>
          (case py_index (py_split_ws after_at) 0 of
             Inl err \<Rightarrow> ([], Inl err)
           | Inr assignee \<Rightarrow>
               ([app_api ''POST'' (Issue_assignees repo n) installation
                   (Some (Assignees [assignee]))],
                Inr 200)))"

definition label_command_app :: "string \<Rightarrow> int \<Rightarrow> string \<Rightarrow> int \<Rightarrow> outcome" where
  "label_command_app repo n comment installation =
     (case py_index (py_split ''/label '' comment) 1 of
        Inl err \<Rightarrow> ([], Inl err)
      | Inr arg \<Rightarrow>
          (let label = py_strip arg
           in ([app_api ''POST'' (Issue_labels repo n) installation (Some (Labels [label]))],
               Inr 200)))"

definition comment_created_app :: "env \<Rightarrow> payload \<Rightarrow> int \<Rightarrow> outcome" where
  "comment_created_app e p installation =
     (let comment = py_strip (comment_body (payload_comment p));
          repo = repository_full_name p;
          n = issue_number (payload_issue p)
      in if prefix ''/'' comment
         then (case py_index (py_split_ws (py_lower comment)) 0 of
                 Inl err \<Rightarrow> ([], Inl err)
               | Inr cmd \<Rightarrow>
                   if cmd = ''/help''
                   then ([app_api ''POST'' (Issue_comments repo n) installation
                            (Some (Body Help_app))],
                         Inr 200)
                   else if prefix ''/assign'' cmd \<and> py_in ''@'' comment
                   then assign_command_app repo n comment installation
                   else if prefix ''/label'' cmd
                   then label_command_app repo n comment installation
                   else if cmd = ''/close''
                   then ([app_api ''PATCH'' (Issue repo n) installation
                            (Some (State ''closed''))],
                         Inr 200)
                   else if cmd = ''/changelog''
                   then ([app_api ''GET'' (Closed_pulls repo 10) installation None,
                          app_api ''POST'' (Issue_comments repo n) installation
                            (Some (Body (Changelog_app
                               (changelog_entries (take 5 (closed_pulls e repo 10))))))],
                         Inr 200)
                   else if cmd = ''/joke''
                   then ([app_api ''POST'' (Issue_comments repo n) installation
                            (Some (Body (Joke (random_choice e 6))))],
                         Inr 200)
                   else if cmd = ''/motivate''
                   then ([app_api ''POST'' (Issue_comments repo n) installation
                            (Some (Body (Quote (random_choice e 6))))],
                         Inr 200)
                   else ([], Inr 200))
         else ([], Inr 200))"

subsection \<open>The webhook of github_app.py\<close>

text \<open>
  \<open>installation_id = payload.get('installation', {}).get('id')\<close>: a delivery with no
  installation id, or with the id 0, is answered with status 400.
\<close>

definition webhook_app :: "env \<Rightarrow> request \<Rightarrow> outcome" where
  "webhook_app e r =
     (let event = event_header r;
          p = request_json r
      in case installation_id p of
           None \<Rightarrow> ([], Inr 400)
         | Some installation \<Rightarrow>
             if installation = 0 then ([], Inr 400)
             else if event = Some ''pull_request''
             then (let act = action p;
                       repo = repository_full_name p;
                       pr = payload_pull_request p;
                       n = pr_number pr;
                       author = pr_user_login pr
                   in if act = ''opened''
                      then (pull_request_opened_app e repo n author (pr_title pr) installation,
                            Inr 200)
                      else if act = ''closed'' \<and> pr_merged pr
                      then ([app_api ''POST'' (Issue_comments repo n) installation
                               (Some (Body (Thanks author)))],
                            Inr 200)
                      else ([], Inr 200))
             else if event = Some ''issues'' \<and> action p = ''opened''
             then (issue_opened_app p installation, Inr 200)
             else if event = Some ''issue_comment'' \<and> action p = ''created''
             then comment_created_app e p installation
             else ([], Inr 200))"

section \<open>Example inputs\<close>

text \<open>
  An engine for the examples. It knows two of the patterns and decides each by the
  literal text the pattern starts with, which is enough for the patches below.
\<close>

definition example_engine :: regex_engine where
  "example_engine ignore_case pattern s =
     ((pattern = ''@'' @ [BSL] @ ''w+'' \<and> py_in ''@app'' s)
      \<or> (pattern = ''password'' @ quoted_value \<and> py_in ''password = '' s))"

text \<open>
  A run of the bot: every path has contents and two commits, by alice and then by bob;
  a set lists its elements in the reverse of the order they were added.
\<close>

definition example_env :: env where
  "example_env =
     \<lparr>pull_files = (\<lambda>repo n. []),
      file_contents = (\<lambda>repo path. True),
      path_commits =
        (\<lambda>repo path. [\<lparr>commit_author = Some ''alice''\<rparr>, \<lparr>commit_author = Some ''bob''\<rparr>]),
      author_pulls = (\<lambda>repo author. 2),
      repository_name = (\<lambda>repo. None),
      closed_pulls = (\<lambda>repo per_page. []),
      re_search = example_engine,
      set_order = rev,
      openai_key = False,
      openai_review = (\<lambda>diff_text. None),
      random_choice = (\<lambda>n. 0)\<rparr>"

definition example_files :: "file_change list" where
  "example_files =
     [\<lparr>filename = ''app.py'', changes = Some 12,
        patch = Some (''+@app.route'' @ [CHR 0x0A] @ ''+PASSWORD = '' @ [DQ] @ ''x'' @ [DQ])\<rparr>,
      \<lparr>filename = ''logo.png'', changes = Some 0, patch = None\<rparr>,
      \<lparr>filename = ''README.md'', changes = Some 3, patch = Some ''+Usage notes''\<rparr>]"

definition files_501 :: "nat \<Rightarrow> file_change list" where
  "files_501 n =
     \<lparr>filename = ''a.py'', changes = Some 501, patch = None\<rparr>
     # replicate (n - 1) \<lparr>filename = ''b.py'', changes = None, patch = None\<rparr>"

text \<open>A delivery with the given event, action, issue title and comment body.\<close>

definition example_request :: "string \<Rightarrow> string \<Rightarrow> string \<Rightarrow> string \<Rightarrow> request" where
  "example_request event act title body =
     \<lparr>event_header = Some event,
      request_json =
        \<lparr>action = act,
         repository_full_name = ''octo/repo'',
         installation_id = Some 7,
         payload_pull_request =
           \<lparr>pr_number = 5, pr_user_login = ''carol'', pr_merged = False, pr_title = title\<rparr>,
         payload_issue =
           \<lparr>issue_number = 5, issue_title = title, issue_body = Some ''It has a bug.''\<rparr>,
         payload_comment = \<lparr>comment_body = body, comment_user_login = ''dave''\<rparr>\<rparr>\<rparr>"

section \<open>The complexity score\<close>

lemma py_sum_acc: "foldl (+) a xs = a + sum_list xs" for a :: int
  by (induction xs arbitrary: a) simp_all

lemma py_sum_sum_list: "py_sum xs = sum_list xs"
  by (simp add: py_sum_def py_sum_acc)

text \<open>
  C1. For every sequence of changed files, the score is the line-count bucket (3, 2, 1
  or 0 at the breakpoints 500, 200 and 50) plus the file-count bucket (2, 1 or 0 at the
  breakpoints 10 and 5), and the risk level is high from score 4, medium from score 2
  and low below. In particular 501 lines in at most 5 files score 3 and rate medium,
  and 501 lines in 6 files score 4 and rate high.
\<close>

theorem analyze_code_complexity_formula:
  "total_lines (analyze_code_complexity files) = sum_list (map get_changes files)
   \<and> file_count (analyze_code_complexity files) = length files
   \<and> score (analyze_code_complexity files) =
       (if total_lines (analyze_code_complexity files) > 500 then 3
        else if total_lines (analyze_code_complexity files) > 200 then 2
        else if total_lines (analyze_code_complexity files) > 50 then 1 else 0)
       + (if file_count (analyze_code_complexity files) > 10 then 2
          else if file_count (analyze_code_complexity files) > 5 then 1 else 0)
   \<and> risk_level (analyze_code_complexity files) =
       (if score (analyze_code_complexity files) \<ge> 4 then ''high''
        else if score (analyze_code_complexity files) \<ge> 2 then ''medium'' else ''low'')
   \<and> (total_lines (analyze_code_complexity files) = 501
        \<and> file_count (analyze_code_complexity files) \<le> 5
        \<longrightarrow> score (analyze_code_complexity files) = 3
          \<and> risk_level (analyze_code_complexity files) = ''medium'')
   \<and> (total_lines (analyze_code_complexity files) = 501
        \<and> file_count (analyze_code_complexity files) = 6
        \<longrightarrow> score (analyze_code_complexity files) = 4
          \<and> risk_level (analyze_code_complexity files) = ''high'')"
  by (simp add: analyze_code_complexity_def Let_def py_sum_sum_list)

lemma files_501_facts:
  "0 < n \<Longrightarrow> sum_list (map get_changes (files_501 n)) = 501 \<and> length (files_501 n) = n"
  by (induction n) (simp_all add: files_501_def get_changes_def sum_list_replicate)

theorem analyze_code_complexity_formula_witness:
  "total_lines (analyze_code_complexity (files_501 1)) = 501
   \<and> file_count (analyze_code_complexity (files_501 1)) \<le> 5
   \<and> score (analyze_code_complexity (files_501 1)) = 3
   \<and> risk_level (analyze_code_complexity (files_501 1)) = ''medium''
   \<and> total_lines (analyze_code_complexity (files_501 6)) = 501
   \<and> file_count (analyze_code_complexity (files_501 6)) = 6
   \<and> score (analyze_code_complexity (files_501 6)) = 4
   \<and> risk_level (analyze_code_complexity (files_501 6)) = ''high''"
proof -
  have one: "total_lines (analyze_code_complexity (files_501 1)) = 501
             \<and> file_count (analyze_code_complexity (files_501 1)) = 1"
    using analyze_code_complexity_formula [of "files_501 1"] files_501_facts [of 1] by simp
  have six: "total_lines (analyze_code_complexity (files_501 6)) = 501
             \<and> file_count (analyze_code_complexity (files_501 6)) = 6"
    using analyze_code_complexity_formula [of "files_501 6"] files_501_facts [of 6] by simp
  show ?thesis
    using analyze_code_complexity_formula [of "files_501 1"]
          analyze_code_complexity_formula [of "files_501 6"] one six
    by simp
qed

text \<open>
  C9. A high rating is never produced by the line count alone or by the file count
  alone: it is given only to an input whose files change more than 200 lines in total
  and number more than 5. The score never exceeds 5.
\<close>

theorem high_risk_needs_lines_and_files:
  "(risk_level (analyze_code_complexity files) = ''high''
      \<longrightarrow> sum_list (map get_changes files) > 200 \<and> length files > 5)
   \<and> score (analyze_code_complexity files) \<le> 5"
  by (simp add: analyze_code_complexity_def Let_def py_sum_sum_list)

lemma files_501_6_high: "risk_level (analyze_code_complexity (files_501 6)) = ''high''"
  using files_501_facts [of 6]
  by (simp add: analyze_code_complexity_def Let_def py_sum_sum_list)

theorem high_risk_needs_lines_and_files_witness:
  "risk_level (analyze_code_complexity (files_501 6)) = ''high''
   \<and> sum_list (map get_changes (files_501 6)) > 200
   \<and> length (files_501 6) > 5
   \<and> score (analyze_code_complexity (files_501 6)) \<le> 5"
  using high_risk_needs_lines_and_files [of "files_501 6"] files_501_6_high
  by simp

section \<open>Breaking changes\<close>

lemma truthy_Some [simp]: "truthy (Some p) = (p \<noteq> [])"
  by (simp add: truthy_def)

lemma truthy_None [simp]: "truthy None = False"
  by (simp add: truthy_def)

lemma breaking_pattern_loop_eq:
  "breaking_pattern_loop re ps f p acc =
     (if list_ex (\<lambda>pattern. re False pattern p) ps then acc @ [filename f] else acc)"
  by (induction ps) simp_all

lemma breaking_file_loop_eq:
  "breaking_file_loop re files acc =
     acc @ map filename
             (filter (\<lambda>f. case patch f of
                            None \<Rightarrow> False
                          | Some p \<Rightarrow> p \<noteq> []
                              \<and> list_ex (\<lambda>pattern. re False pattern p) breaking_patterns)
                files)"
proof (induction files arbitrary: acc)
  case Nil
  show ?case by simp
next
  case (Cons f files)
  show ?case
    by (cases "patch f") (simp_all add: Cons.IH breaking_pattern_loop_eq)
qed

text \<open>
  C7. \<open>detect_breaking_changes\<close> returns exactly the paths of the files that have a
  non-empty patch matched by at least one breaking-change pattern, every such file once
  and in the order of the input; where the input names every file once, so does the
  result.
\<close>

theorem detect_breaking_changes_filter:
  "detect_breaking_changes re files =
     map filename
       (filter (\<lambda>f. case patch f of
                      None \<Rightarrow> False
                    | Some p \<Rightarrow> p \<noteq> []
                        \<and> list_ex (\<lambda>pattern. re False pattern p) breaking_patterns)
          files)
   \<and> length (detect_breaking_changes re files) \<le> length files
   \<and> (distinct (map filename files) \<longrightarrow> distinct (detect_breaking_changes re files))"
  by (simp add: detect_breaking_changes_def breaking_file_loop_eq distinct_map_filter)

lemma example_breaking: "detect_breaking_changes example_engine example_files = [''app.py'']"
  by (simp add: detect_breaking_changes_def example_files_def example_engine_def
      breaking_patterns_def BSL_def DQ_def)

theorem detect_breaking_changes_filter_witness:
  "distinct (map filename example_files)
   \<and> detect_breaking_changes example_engine example_files = [''app.py'']
   \<and> distinct (detect_breaking_changes example_engine example_files)"
  using detect_breaking_changes_filter [of example_engine example_files] example_breaking
  by (simp add: example_files_def)

section \<open>The vulnerability scan\<close>

lemma scan_pattern_loop_eq:
  "scan_pattern_loop re category ps pc fname acc =
     acc @ map (\<lambda>pattern.
                 \<lparr>vuln_type = category, vuln_file = fname,
                  severity = (if category = ''hardcoded_secrets'' then ''high'' else ''medium'')\<rparr>)
             (filter (\<lambda>pattern. re True pattern pc) ps)"
  by (induction ps arbitrary: acc) simp_all

lemma scan_category_loop_eq:
  "scan_category_loop re items pc fname acc =
     acc @ concat (map (\<lambda>(category, patterns).
                         map (\<lambda>pattern.
                               \<lparr>vuln_type = category, vuln_file = fname,
                                severity = (if category = ''hardcoded_secrets'' then ''high''
                                            else ''medium'')\<rparr>)
                           (filter (\<lambda>pattern. re True pattern pc) patterns))
                    items)"
  by (induction items arbitrary: acc) (auto simp: scan_pattern_loop_eq)

lemma scan_file_loop_eq:
  "scan_file_loop re files acc =
     acc @ concat (map (\<lambda>f. case patch f of
                              None \<Rightarrow> []
                            | Some p \<Rightarrow>
                                if p = [] then []
                                else concat (map (\<lambda>(category, patterns).
                                         map (\<lambda>pattern.
                                               \<lparr>vuln_type = category, vuln_file = filename f,
                                                severity = (if category = ''hardcoded_secrets''
                                                            then ''high'' else ''medium'')\<rparr>)
                                           (filter (\<lambda>pattern. re True pattern (py_lower p))
                                              patterns))
                                       SECURITY_PATTERNS))
                    files)"
proof (induction files arbitrary: acc)
  case Nil
  show ?case by simp
next
  case (Cons f files)
  show ?case
    by (cases "patch f") (simp_all add: Cons.IH scan_category_loop_eq)
qed

lemma scan_severity:
  "v \<in> set (scan_file_loop re files []) \<Longrightarrow>
     (severity v = ''high'') = (vuln_type v = ''hardcoded_secrets'')
     \<and> (severity v = ''high'' \<or> severity v = ''medium'')"
  by (auto simp: scan_file_loop_eq split: option.splits if_splits)

text \<open>
  C5. \<open>scan_for_vulnerabilities\<close> emits one finding for every file, category and
  pattern whose pattern matches the lower-cased patch of the file, with no
  deduplication: files in the order of the input (a file with no patch or an empty one
  gives nothing), then categories and patterns in the order of the catalogue. The
  severity of a finding is high exactly when its category is hardcoded_secrets, and
  medium otherwise.
\<close>

theorem scan_for_vulnerabilities_findings:
  "scan_for_vulnerabilities re files =
     concat (map (\<lambda>f. case patch f of
                        None \<Rightarrow> []
                      | Some p \<Rightarrow>
                          if p = [] then []
                          else concat (map (\<lambda>(category, patterns).
                                   map (\<lambda>pattern.
                                         \<lparr>vuln_type = category, vuln_file = filename f,
                                          severity = (if category = ''hardcoded_secrets''
                                                      then ''high'' else ''medium'')\<rparr>)
                                     (filter (\<lambda>pattern. re True pattern (py_lower p)) patterns))
                                 SECURITY_PATTERNS))
              files)
   \<and> (\<forall>v \<in> set (scan_for_vulnerabilities re files).
         (severity v = ''high'') = (vuln_type v = ''hardcoded_secrets'')
         \<and> (severity v = ''high'' \<or> severity v = ''medium''))"
proof
  show "scan_for_vulnerabilities re files =
     concat (map (\<lambda>f. case patch f of
                        None \<Rightarrow> []
                      | Some p \<Rightarrow>
                          if p = [] then []
                          else concat (map (\<lambda>(category, patterns).
                                   map (\<lambda>pattern.
                                         \<lparr>vuln_type = category, vuln_file = filename f,
                                          severity = (if category = ''hardcoded_secrets''
                                                      then ''high'' else ''medium'')\<rparr>)
                                     (filter (\<lambda>pattern. re True pattern (py_lower p)) patterns))
                                 SECURITY_PATTERNS))
              files)"
    by (simp add: scan_for_vulnerabilities_def scan_file_loop_eq)
next
  show "\<forall>v \<in> set (scan_for_vulnerabilities re files).
         (severity v = ''high'') = (vuln_type v = ''hardcoded_secrets'')
         \<and> (severity v = ''high'' \<or> severity v = ''medium'')"
    unfolding scan_for_vulnerabilities_def by (intro ballI scan_severity)
qed

theorem scan_for_vulnerabilities_findings_witness:
  "scan_for_vulnerabilities example_engine example_files =
     [\<lparr>vuln_type = ''hardcoded_secrets'', vuln_file = ''app.py'', severity = ''high''\<rparr>]
   \<and> (severity \<lparr>vuln_type = ''hardcoded_secrets'', vuln_file = ''app.py'', severity = ''high''\<rparr>
        = ''high'')
     = (vuln_type \<lparr>vuln_type = ''hardcoded_secrets'', vuln_file = ''app.py'', severity = ''high''\<rparr>
        = ''hardcoded_secrets'')"
  using scan_for_vulnerabilities_findings [of example_engine example_files]
  by (simp add: example_files_def example_engine_def SECURITY_PATTERNS_def
      py_lower_def py_lower_char_def DQ_def)

section \<open>Python strings\<close>

lemma py_split_ws_Nil [simp]: "py_split_ws [] = []"
  by (simp add: py_split_ws.simps)

lemma py_split_ws_space [simp]: "py_isspace c \<Longrightarrow> py_split_ws (c # cs) = py_split_ws cs"
  by (subst py_split_ws.simps, subst (2) py_split_ws.simps) simp

lemma py_split_ws_nonspace [simp]:
  "\<not> py_isspace c \<Longrightarrow>
     py_split_ws (c # cs) =
       (c # takeWhile (\<lambda>x. \<not> py_isspace x) cs)
       # py_split_ws (dropWhile (\<lambda>x. \<not> py_isspace x) cs)"
  by (subst py_split_ws.simps) simp

lemma py_split_ws_spaces: "\<forall>c \<in> set a. py_isspace c \<Longrightarrow> py_split_ws (a @ s) = py_split_ws s"
  by (induction a) simp_all

lemma py_split_ws_only_spaces: "\<forall>c \<in> set b. py_isspace c \<Longrightarrow> py_split_ws b = []"
  by (induction b) simp_all

lemma takeWhile_nonspace_append_spaces:
  "\<forall>c \<in> set b. py_isspace c \<Longrightarrow>
     takeWhile (\<lambda>x. \<not> py_isspace x) (r @ b) = takeWhile (\<lambda>x. \<not> py_isspace x) r"
proof (induction r)
  case Nil
  then show ?case by (cases b) simp_all
next
  case (Cons x r)
  then show ?case by simp
qed

lemma dropWhile_nonspace_spaces:
  "\<forall>c \<in> set b. py_isspace c \<Longrightarrow> dropWhile (\<lambda>x. \<not> py_isspace x) b = b"
  by (cases b) simp_all

lemma py_split_ws_trailing:
  "\<forall>c \<in> set b. py_isspace c \<Longrightarrow> py_split_ws (s @ b) = py_split_ws s"
proof (induction "length s" arbitrary: s rule: less_induct)
  case less
  show ?case
  proof (cases s)
    case Nil
    then show ?thesis using less.prems by (simp add: py_split_ws_only_spaces)
  next
    case (Cons c cs)
    show ?thesis
    proof (cases "py_isspace c")
      case True
      then show ?thesis using Cons less by simp
    next
      case False
      let ?d = "dropWhile (\<lambda>x. \<not> py_isspace x) cs"
      have len: "length ?d < length s"
        using Cons length_dropWhile_le [of "\<lambda>x. \<not> py_isspace x" cs] by simp
      have "py_split_ws (dropWhile (\<lambda>x. \<not> py_isspace x) (cs @ b)) = py_split_ws ?d"
      proof (cases "\<forall>x \<in> set cs. \<not> py_isspace x")
        case True
        then have d: "?d = []" by simp
        have db: "dropWhile (\<lambda>x. \<not> py_isspace x) (cs @ b) = b"
          using True less.prems by (simp add: dropWhile_append dropWhile_nonspace_spaces)
        show ?thesis
          unfolding d db using less.prems by (simp add: py_split_ws_only_spaces)
      next
        case notall: False
        then have "dropWhile (\<lambda>x. \<not> py_isspace x) (cs @ b) = ?d @ b"
          by (auto simp: dropWhile_append)
        then show ?thesis using less.hyps [OF len less.prems] by simp
      qed
      then show ?thesis
        using Cons False less.prems by (simp add: takeWhile_nonspace_append_spaces)
    qed
  qed
qed

lemma py_strip_decomp:
  "s = takeWhile py_isspace s @ py_strip s
         @ rev (takeWhile py_isspace (rev (dropWhile py_isspace s)))"
proof -
  let ?d = "dropWhile py_isspace s"
  have "rev ?d = takeWhile py_isspace (rev ?d) @ dropWhile py_isspace (rev ?d)" by simp
  then have "?d = rev (dropWhile py_isspace (rev ?d)) @ rev (takeWhile py_isspace (rev ?d))"
    by (metis rev_append rev_rev_ident)
  then have "takeWhile py_isspace s @ ?d =
     takeWhile py_isspace s @ py_strip s @ rev (takeWhile py_isspace (rev ?d))"
    by (simp add: py_strip_def)
  then show ?thesis by simp
qed

lemma py_strip_cases:
  obtains a b where "s = a @ py_strip s @ b"
    and "\<forall>c \<in> set a. py_isspace c" and "\<forall>c \<in> set b. py_isspace c"
proof
  show "s = takeWhile py_isspace s @ py_strip s
         @ rev (takeWhile py_isspace (rev (dropWhile py_isspace s)))"
    by (rule py_strip_decomp)
  show "\<forall>c \<in> set (takeWhile py_isspace s). py_isspace c"
    by (auto dest: set_takeWhileD)
  show "\<forall>c \<in> set (rev (takeWhile py_isspace (rev (dropWhile py_isspace s)))). py_isspace c"
    by (auto dest: set_takeWhileD)
qed

lemma py_split_ws_strip: "py_split_ws (py_strip s) = py_split_ws s"
proof -
  obtain a b where s: "s = a @ py_strip s @ b"
    and a: "\<forall>c \<in> set a. py_isspace c" and b: "\<forall>c \<in> set b. py_isspace c"
    by (rule py_strip_cases)
  have "py_split_ws s = py_split_ws (a @ py_strip s @ b)" using s by simp
  also have "\<dots> = py_split_ws (py_strip s @ b)" using a by (rule py_split_ws_spaces)
  also have "\<dots> = py_split_ws (py_strip s)" using b by (rule py_split_ws_trailing)
  finally show ?thesis by simp
qed

lemma py_isspace_lower_char [simp]: "py_isspace (py_lower_char c) = py_isspace c"
  by (cases c) (auto simp: py_lower_char_def py_isspace_def Let_def)

lemma py_lower_append: "py_lower (x @ y) = py_lower x @ py_lower y"
  by (simp add: py_lower_def)

lemma py_lower_Cons: "py_lower (c # cs) = py_lower_char c # py_lower cs"
  by (simp add: py_lower_def)

lemma py_lower_Nil [simp]: "py_lower [] = []"
  by (simp add: py_lower_def)

lemma takeWhile_nonspace_lower:
  "takeWhile (\<lambda>x. \<not> py_isspace x) (py_lower cs) = py_lower (takeWhile (\<lambda>x. \<not> py_isspace x) cs)"
  by (induction cs) (simp_all add: py_lower_Cons)

lemma dropWhile_nonspace_lower:
  "dropWhile (\<lambda>x. \<not> py_isspace x) (py_lower cs) = py_lower (dropWhile (\<lambda>x. \<not> py_isspace x) cs)"
  by (induction cs) (simp_all add: py_lower_Cons)

lemma py_split_ws_lower: "py_split_ws (py_lower s) = map py_lower (py_split_ws s)"
proof (induction "length s" arbitrary: s rule: less_induct)
  case less
  show ?case
  proof (cases s)
    case Nil
    then show ?thesis by simp
  next
    case (Cons c cs)
    show ?thesis
    proof (cases "py_isspace c")
      case True
      then show ?thesis using Cons less by (simp add: py_lower_Cons)
    next
      case False
      have "length (dropWhile (\<lambda>x. \<not> py_isspace x) cs) < length s"
        using Cons length_dropWhile_le [of "\<lambda>x. \<not> py_isspace x" cs] by simp
      then have "py_split_ws (py_lower (dropWhile (\<lambda>x. \<not> py_isspace x) cs)) =
                 map py_lower (py_split_ws (dropWhile (\<lambda>x. \<not> py_isspace x) cs))"
        by (rule less.hyps)
      then show ?thesis
        using Cons False
        by (simp add: py_lower_Cons takeWhile_nonspace_lower dropWhile_nonspace_lower)
    qed
  qed
qed

text \<open>The first token of a string starts the stripped string.\<close>

lemma first_token_dropWhile:
  "py_split_ws s = t # rest \<Longrightarrow>
     t \<noteq> [] \<and> (\<forall>c \<in> set t. \<not> py_isspace c)
     \<and> (\<exists>r. dropWhile py_isspace s = t @ r)"
proof (induction s)
  case Nil
  then show ?case by simp
next
  case (Cons c cs)
  show ?case
  proof (cases "py_isspace c")
    case True
    then show ?thesis using Cons by simp
  next
    case False
    then have t: "t = c # takeWhile (\<lambda>x. \<not> py_isspace x) cs" using Cons.prems by simp
    have "dropWhile py_isspace (c # cs) = c # cs" using False by simp
    also have "\<dots> = t @ dropWhile (\<lambda>x. \<not> py_isspace x) cs" by (simp add: t)
    finally have "\<exists>r. dropWhile py_isspace (c # cs) = t @ r" by (rule exI)
    moreover have "t \<noteq> []" by (simp add: t)
    moreover have "\<forall>x \<in> set t. \<not> py_isspace x"
      using False by (auto simp: t dest: set_takeWhileD)
    ultimately show ?thesis by blast
  qed
qed

lemma first_token_prefix_strip:
  assumes "py_split_ws s = t # rest"
  shows "prefix t (py_strip s)"
proof -
  from first_token_dropWhile [OF assms]
  obtain r where t: "t \<noteq> []" and ns: "\<forall>c \<in> set t. \<not> py_isspace c"
    and d: "dropWhile py_isspace s = t @ r" by blast
  obtain x xs where xs: "rev t = x # xs" using t by (cases "rev t") simp_all
  then have "x \<in> set t" by (metis list.set_intros(1) set_rev)
  then have "\<not> py_isspace x" using ns by simp
  then have rt: "dropWhile py_isspace (rev t) = rev t" using xs by simp
  have "dropWhile py_isspace (rev r @ rev t) =
         (if \<forall>c \<in> set (rev r). py_isspace c then rev t
          else dropWhile py_isspace (rev r) @ rev t)"
    by (simp only: dropWhile_append rt)
  then have "py_strip s =
         (if \<forall>c \<in> set (rev r). py_isspace c then t
          else t @ rev (dropWhile py_isspace (rev r)))"
    by (simp add: py_strip_def d)
  then show ?thesis by (simp add: prefix_def)
qed

lemma py_in_char: "py_in [a] s = (a \<in> set s)"
  by (induction s) auto

lemma set_py_strip_nonspace:
  "\<not> py_isspace a \<Longrightarrow> (a \<in> set (py_strip s)) = (a \<in> set s)"
proof -
  assume a: "\<not> py_isspace a"
  obtain x y where s: "s = x @ py_strip s @ y"
    and x: "\<forall>c \<in> set x. py_isspace c" and y: "\<forall>c \<in> set y. py_isspace c"
    by (rule py_strip_cases)
  have "a \<in> set s \<longleftrightarrow> a \<in> set (x @ py_strip s @ y)" using s by simp
  then show ?thesis using a x y by auto
qed

lemma py_split_char_Nil [simp]: "py_split [a] [] = [[]]"
  by (simp add: py_split.simps)

lemma py_split_char_Cons:
  "py_split [a] (c # cs) =
     (if c = a then [] # py_split [a] cs
      else (case py_split [a] cs of [] \<Rightarrow> [[c]] | piece # pieces \<Rightarrow> (c # piece) # pieces))"
  by (subst py_split.simps) simp

lemma py_split_char_eq:
  "py_split [a] s =
     takeWhile (\<lambda>c. c \<noteq> a) s
     # (case dropWhile (\<lambda>c. c \<noteq> a) s of [] \<Rightarrow> [] | x # r \<Rightarrow> py_split [a] r)"
  by (induction s) (simp_all add: py_split_char_Cons)

lemma py_split_char_second:
  "a \<in> set s \<Longrightarrow>
     py_index (py_split [a] s) 1 =
       Inr (takeWhile (\<lambda>c. c \<noteq> a) (tl (dropWhile (\<lambda>c. c \<noteq> a) s)))"
proof -
  assume "a \<in> set s"
  then obtain x r where d: "dropWhile (\<lambda>c. c \<noteq> a) s = x # r"
    by (cases "dropWhile (\<lambda>c. c \<noteq> a) s") (auto simp: dropWhile_eq_Nil_conv)
  have "py_split [a] s = takeWhile (\<lambda>c. c \<noteq> a) s # py_split [a] r"
    by (subst py_split_char_eq) (simp add: d)
  also have "py_split [a] r = takeWhile (\<lambda>c. c \<noteq> a) r
       # (case dropWhile (\<lambda>c. c \<noteq> a) r of [] \<Rightarrow> [] | x # r' \<Rightarrow> py_split [a] r')"
    by (rule py_split_char_eq)
  finally show ?thesis by (simp add: py_index_def d)
qed

lemma py_split_no_sep: "a \<notin> set s \<Longrightarrow> py_split [a] s = [s]"
proof -
  assume "a \<notin> set s"
  then have d: "dropWhile (\<lambda>c. c \<noteq> a) s = []" and t: "takeWhile (\<lambda>c. c \<noteq> a) s = s"
    by (auto simp: dropWhile_eq_Nil_conv takeWhile_eq_all_conv)
  show ?thesis by (subst py_split_char_eq) (simp only: d t list.case)
qed

lemma py_index_first_token:
  "py_index (py_split_ws s) 0 =
     (case dropWhile py_isspace s of
        [] \<Rightarrow> Inl IndexError
      | c # cs \<Rightarrow> Inr (c # takeWhile (\<lambda>x. \<not> py_isspace x) cs))"
proof (cases "dropWhile py_isspace s")
  case Nil
  have "py_split_ws s = []" by (subst py_split_ws.simps) (simp only: Nil list.case)
  then show ?thesis by (simp only: Nil list.case) (simp add: py_index_def)
next
  case (Cons c cs)
  have "py_split_ws s = (c # takeWhile (\<lambda>x. \<not> py_isspace x) cs)
          # py_split_ws (dropWhile (\<lambda>x. \<not> py_isspace x) cs)"
    by (subst py_split_ws.simps) (simp only: Cons list.case)
  then show ?thesis by (simp only: Cons list.case) (simp add: py_index_def)
qed

section \<open>Comment commands\<close>

lemma isspace_simps [simp]:
  "py_isspace (CHR ''/'') = False" "py_isspace (CHR ''@'') = False" "py_isspace (CHR '' '') = True"
  by (simp_all add: py_isspace_def)

lemma webhook_bot_comment:
  "event_header r = Some ''issue_comment'' \<Longrightarrow> action (request_json r) = ''created'' \<Longrightarrow>
     webhook_bot e r = comment_created_bot e (request_json r)"
  by (simp add: webhook_bot_def Let_def)

lemma webhook_app_comment:
  "event_header r = Some ''issue_comment'' \<Longrightarrow> action (request_json r) = ''created'' \<Longrightarrow>
   installation_id (request_json r) = Some i \<Longrightarrow> i \<noteq> 0 \<Longrightarrow>
     webhook_app e r = comment_created_app e (request_json r) i"
  by (simp add: webhook_app_def Let_def)

lemma command_verb:
  assumes "py_split_ws body = t # rest" and "prefix ''/'' t"
  shows "prefix ''/'' (py_strip body)"
    and "py_index (py_split_ws (py_lower (py_strip body))) 0 = Inr (py_lower t)"
proof -
  have "prefix t (py_strip body)" using assms(1) by (rule first_token_prefix_strip)
  with assms(2) show "prefix ''/'' (py_strip body)" by (rule prefix_order.trans)
  have "py_split_ws (py_lower (py_strip body)) = py_lower t # map py_lower rest"
    by (simp add: py_split_ws_lower py_split_ws_strip assms(1))
  then show "py_index (py_split_ws (py_lower (py_strip body))) 0 = Inr (py_lower t)"
    by (simp add: py_index_def)
qed

lemma py_lower_prefix: "prefix x t \<Longrightarrow> prefix (py_lower x) (py_lower t)"
  by (auto simp: prefix_def py_lower_append)

lemma lower_assign: "py_lower ''/assign'' = ''/assign''"
  by (simp add: py_lower_def py_lower_char_def)

lemma lower_label: "py_lower ''/label'' = ''/label''"
  by (simp add: py_lower_def py_lower_char_def)

lemma assign_dispatch_bot:
  assumes "py_split_ws (comment_body (payload_comment p)) = t # rest"
    and "prefix ''/assign'' t"
  shows "comment_created_bot e p =
           assign_command_bot (repository_full_name p) (issue_number (payload_issue p))
             (py_strip (comment_body (payload_comment p)))"
proof -
  have sl: "prefix ''/'' t" using assms(2) by (auto simp: prefix_def)
  have "prefix ''/assign'' (py_lower t)"
    using py_lower_prefix [OF assms(2)] by (simp add: lower_assign)
  then obtain y where y: "py_lower t = ''/assign'' @ y" by (auto simp: prefix_def)
  show ?thesis
    by (simp add: comment_created_bot_def Let_def command_verb [OF assms(1) sl] y)
qed

lemma label_dispatch_bot:
  assumes "py_split_ws (comment_body (payload_comment p)) = t # rest"
    and "prefix ''/label'' t"
  shows "comment_created_bot e p =
           label_command_bot (repository_full_name p) (issue_number (payload_issue p))
             (py_strip (comment_body (payload_comment p)))"
proof -
  have sl: "prefix ''/'' t" using assms(2) by (auto simp: prefix_def)
  have "prefix ''/label'' (py_lower t)"
    using py_lower_prefix [OF assms(2)] by (simp add: lower_label)
  then obtain y where y: "py_lower t = ''/label'' @ y" by (auto simp: prefix_def)
  show ?thesis
    by (simp add: comment_created_bot_def Let_def command_verb [OF assms(1) sl] y)
qed

lemma assign_dispatch_app:
  assumes "py_split_ws (comment_body (payload_comment p)) = t # rest"
    and "prefix ''/assign'' t"
  shows "comment_created_app e p i =
           (if py_in ''@'' (py_strip (comment_body (payload_comment p)))
            then assign_command_app (repository_full_name p) (issue_number (payload_issue p))
                   (py_strip (comment_body (payload_comment p))) i
            else ([], Inr 200))"
proof -
  have sl: "prefix ''/'' t" using assms(2) by (auto simp: prefix_def)
  have "prefix ''/assign'' (py_lower t)"
    using py_lower_prefix [OF assms(2)] by (simp add: lower_assign)
  then obtain y where y: "py_lower t = ''/assign'' @ y" by (auto simp: prefix_def)
  show ?thesis
    by (simp add: comment_created_app_def Let_def command_verb [OF assms(1) sl] y)
qed

lemma label_dispatch_app:
  assumes "py_split_ws (comment_body (payload_comment p)) = t # rest"
    and "prefix ''/label'' t"
  shows "comment_created_app e p i =
           label_command_app (repository_full_name p) (issue_number (payload_issue p))
             (py_strip (comment_body (payload_comment p))) i"
proof -
  have sl: "prefix ''/'' t" using assms(2) by (auto simp: prefix_def)
  have "prefix ''/label'' (py_lower t)"
    using py_lower_prefix [OF assms(2)] by (simp add: lower_label)
  then obtain y where y: "py_lower t = ''/label'' @ y" by (auto simp: prefix_def)
  show ?thesis
    by (simp add: comment_created_app_def Let_def command_verb [OF assms(1) sl] y)
qed

lemma takeWhile_nonspace_dropWhile_space:
  "dropWhile py_isspace s = c # cs \<Longrightarrow>
     c # takeWhile (\<lambda>x. \<not> py_isspace x) cs = takeWhile (\<lambda>x. \<not> py_isspace x) (c # cs)"
  by (metis hd_dropWhile list.distinct(1) list.sel(1) takeWhile.simps(2))

text \<open>
  What the assign handlers compute: with an \<open>@\<close> in the comment, the first
  whitespace-delimited token of the text between the first \<open>@\<close> and the next one (or
  the end); IndexError when that text has no token.
\<close>

lemma assign_command_bot_eq:
  "assign_command_bot repo n comment =
     (if CHR ''@'' \<in> set comment
      then (let after_at = takeWhile (\<lambda>c. c \<noteq> CHR ''@'')
                             (tl (dropWhile (\<lambda>c. c \<noteq> CHR ''@'') comment))
            in if dropWhile py_isspace after_at = [] then ([], Inl IndexError)
               else ([bot_api ''POST'' (Issue_assignees repo n)
                        (Some (Assignees
                           [takeWhile (\<lambda>x. \<not> py_isspace x) (dropWhile py_isspace after_at)])),
                      bot_api ''POST'' (Issue_comments repo n)
                        (Some (Body (Assigned_to
                           (takeWhile (\<lambda>x. \<not> py_isspace x) (dropWhile py_isspace after_at)))))],
                     Inr 200))
      else ([], Inr 200))"
proof (cases "CHR ''@'' \<in> set comment")
  case False
  then show ?thesis by (simp add: assign_command_bot_def py_in_char)
next
  case True
  let ?a = "takeWhile (\<lambda>c. c \<noteq> CHR ''@'') (tl (dropWhile (\<lambda>c. c \<noteq> CHR ''@'') comment))"
  have second: "py_index (py_split ''@'' comment) (Suc 0) = Inr ?a"
    using py_split_char_second [OF True] by simp
  show ?thesis
  proof (cases "dropWhile py_isspace ?a")
    case Nil
    have first: "py_index (py_split_ws ?a) 0 = Inl IndexError"
      by (simp only: py_index_first_token Nil list.case)
    show ?thesis
      using True Nil by (simp add: assign_command_bot_def py_in_char second first Let_def)
  next
    case (Cons c cs)
    have first: "py_index (py_split_ws ?a) 0
                   = Inr (takeWhile (\<lambda>x. \<not> py_isspace x) (dropWhile py_isspace ?a))"
      using takeWhile_nonspace_dropWhile_space [OF Cons]
      by (simp only: py_index_first_token Cons list.case)
    have ne: "dropWhile py_isspace ?a \<noteq> []" using Cons by simp
    show ?thesis
      using True ne by (simp add: assign_command_bot_def py_in_char second first Let_def)
  qed
qed

lemma assign_command_app_eq:
  "CHR ''@'' \<in> set comment \<Longrightarrow>
   assign_command_app repo n comment i =
     (let after_at = takeWhile (\<lambda>c. c \<noteq> CHR ''@'')
                       (tl (dropWhile (\<lambda>c. c \<noteq> CHR ''@'') comment))
      in if dropWhile py_isspace after_at = [] then ([], Inl IndexError)
         else ([app_api ''POST'' (Issue_assignees repo n) i
                  (Some (Assignees
                     [takeWhile (\<lambda>x. \<not> py_isspace x) (dropWhile py_isspace after_at)]))],
               Inr 200))"
proof -
  assume at: "CHR ''@'' \<in> set comment"
  let ?a = "takeWhile (\<lambda>c. c \<noteq> CHR ''@'') (tl (dropWhile (\<lambda>c. c \<noteq> CHR ''@'') comment))"
  have second: "py_index (py_split ''@'' comment) (Suc 0) = Inr ?a"
    using py_split_char_second [OF at] by simp
  show ?thesis
  proof (cases "dropWhile py_isspace ?a")
    case Nil
    have first: "py_index (py_split_ws ?a) 0 = Inl IndexError"
      by (simp only: py_index_first_token Nil list.case)
    show ?thesis
      using Nil by (simp add: assign_command_app_def second first Let_def)
  next
    case (Cons c cs)
    have first: "py_index (py_split_ws ?a) 0
                   = Inr (takeWhile (\<lambda>x. \<not> py_isspace x) (dropWhile py_isspace ?a))"
      using takeWhile_nonspace_dropWhile_space [OF Cons]
      by (simp only: py_index_first_token Cons list.case)
    have ne: "dropWhile py_isspace ?a \<noteq> []" using Cons by simp
    show ?thesis
      using ne by (simp add: assign_command_app_def second first Let_def)
  qed
qed

lemma takeWhile_takeWhile_without:
  "a \<notin> set (takeWhile P r) \<Longrightarrow> takeWhile P (takeWhile (\<lambda>c. c \<noteq> a) r) = takeWhile P r"
  by (induction r) (auto split: if_splits)

text \<open>
  Where the token that follows the first \<open>@\<close> of the body up to the next whitespace is not
  empty and holds no further \<open>@\<close>, it is the token the handlers compute from the stripped
  comment.
\<close>

lemma token_after_at:
  assumes at: "CHR ''@'' \<in> set body"
    and tok: "takeWhile (\<lambda>x. \<not> py_isspace x) (tl (dropWhile (\<lambda>c. c \<noteq> CHR ''@'') body)) = token"
    and ne: "token \<noteq> []" and no_at: "CHR ''@'' \<notin> set token"
  defines "after_at \<equiv> takeWhile (\<lambda>c. c \<noteq> CHR ''@'')
                         (tl (dropWhile (\<lambda>c. c \<noteq> CHR ''@'') (py_strip body)))"
  shows "dropWhile py_isspace after_at \<noteq> []"
    and "takeWhile (\<lambda>x. \<not> py_isspace x) (dropWhile py_isspace after_at) = token"
proof -
  obtain a b where s: "body = a @ py_strip body @ b"
    and a: "\<forall>c \<in> set a. py_isspace c" and b: "\<forall>c \<in> set b. py_isspace c"
    by (rule py_strip_cases)
  have nsp: "\<not> py_isspace (CHR ''@'')" by (simp add: py_isspace_def)
  have atm: "CHR ''@'' \<in> set (py_strip body)" using at nsp by (simp add: set_py_strip_nonspace)
  have a_no: "\<forall>c \<in> set a. c \<noteq> CHR ''@''" using a nsp by auto
  let ?d = "dropWhile (\<lambda>c. c \<noteq> CHR ''@'') (py_strip body)"
  have dne: "?d \<noteq> []" using atm by (auto simp: dropWhile_eq_Nil_conv)
  have "dropWhile (\<lambda>c. c \<noteq> CHR ''@'') (a @ py_strip body @ b) = ?d @ b"
    using a_no atm by (auto simp: dropWhile_append)
  then have "dropWhile (\<lambda>c. c \<noteq> CHR ''@'') body = ?d @ b" using s by simp
  then have "tl (dropWhile (\<lambda>c. c \<noteq> CHR ''@'') body) = tl ?d @ b" using dne by simp
  then have t: "token = takeWhile (\<lambda>x. \<not> py_isspace x) (tl ?d)"
    using tok b by (simp add: takeWhile_nonspace_append_spaces)
  then obtain x r where r: "tl ?d = x # r" using ne by (cases "tl ?d") auto
  have x: "\<not> py_isspace x" using t r ne by (auto split: if_splits)
  then have "x \<in> set token" using t r by simp
  then have xa: "x \<noteq> CHR ''@''" using no_at by auto
  have aa: "after_at = x # takeWhile (\<lambda>c. c \<noteq> CHR ''@'') r"
    using xa by (simp add: after_at_def r)
  then have dd: "dropWhile py_isspace after_at = after_at" using x by simp
  show "dropWhile py_isspace after_at \<noteq> []" using dd aa by simp
  have "CHR ''@'' \<notin> set (takeWhile (\<lambda>x. \<not> py_isspace x) (tl ?d))" using no_at t by simp
  then have "takeWhile (\<lambda>x. \<not> py_isspace x) (takeWhile (\<lambda>c. c \<noteq> CHR ''@'') (tl ?d))
             = takeWhile (\<lambda>x. \<not> py_isspace x) (tl ?d)"
    by (rule takeWhile_takeWhile_without)
  then show "takeWhile (\<lambda>x. \<not> py_isspace x) (dropWhile py_isspace after_at) = token"
    unfolding dd using t by (simp add: after_at_def)
qed

text \<open>
  C2. A comment whose stripped body is the bare command \<open>/label\<close> reaches the label
  handler, which takes the piece after \<open>'/label '\<close> with no guard: both webhooks end with
  IndexError, before any call to the platform, where the specification asks for a no-op
  that does not raise.
\<close>

theorem bare_label_command_raises:
  assumes "event_header r = Some ''issue_comment''"
    and "action (request_json r) = ''created''"
    and "py_strip (comment_body (payload_comment (request_json r))) = ''/label''"
  shows "webhook_bot e r = ([], Inl IndexError)
       \<and> (installation_id (request_json r) = Some i \<and> i \<noteq> 0
            \<longrightarrow> webhook_app e r = ([], Inl IndexError))"
proof -
  have verb: "py_index (py_split_ws (py_lower ''/label'')) 0 = Inr ''/label''"
    by (simp add: py_lower_def py_lower_char_def py_index_def py_isspace_def)
  have arg: "py_index (py_split ''/label '' ''/label'') (Suc 0) = Inl IndexError"
    by (simp add: py_split.simps py_index_def)
  have "comment_created_bot e (request_json r) = ([], Inl IndexError)"
    by (simp add: comment_created_bot_def Let_def assms(3) verb label_command_bot_def arg)
  moreover have "comment_created_app e (request_json r) i = ([], Inl IndexError)"
    by (simp add: comment_created_app_def Let_def assms(3) verb label_command_app_def arg)
  ultimately show ?thesis
    using assms(1,2) by (simp add: webhook_bot_comment webhook_app_comment)
qed

theorem bare_label_command_raises_witness:
  "py_strip (comment_body (payload_comment (request_json
      (example_request ''issue_comment'' ''created'' ''Title'' '' /label '')))) = ''/label''
   \<and> webhook_bot example_env (example_request ''issue_comment'' ''created'' ''Title'' '' /label '')
       = ([], Inl IndexError)
   \<and> webhook_app example_env (example_request ''issue_comment'' ''created'' ''Title'' '' /label '')
       = ([], Inl IndexError)"
proof -
  have s: "py_strip (comment_body (payload_comment (request_json
      (example_request ''issue_comment'' ''created'' ''Title'' '' /label '')))) = ''/label''"
    by (simp add: example_request_def py_strip_def py_isspace_def)
  show ?thesis
    using bare_label_command_raises [of "example_request ''issue_comment'' ''created'' ''Title'' '' /label ''" example_env 7] s
    by (simp add: example_request_def)
qed

text \<open>
  C10. Verbs are recognised by prefix: \<open>assign_dispatch_bot\<close>, \<open>assign_dispatch_app\<close>,
  \<open>label_dispatch_bot\<close> and \<open>label_dispatch_app\<close> above. But the assign handler does
  not add an assignee for every such comment with an \<open>@\<close>: the comment \<open>/assignees @\<close>
  has no token after its \<open>@\<close>, and both webhooks end with IndexError before any call.
\<close>

theorem assign_without_token_raises:
  "webhook_bot example_env (example_request ''issue_comment'' ''created'' ''Title'' ''/assignees @'')
     = ([], Inl IndexError)
   \<and> webhook_app example_env (example_request ''issue_comment'' ''created'' ''Title'' ''/assignees @'')
     = ([], Inl IndexError)"
proof -
  let ?r = "example_request ''issue_comment'' ''created'' ''Title'' ''/assignees @''"
  have body: "comment_body (payload_comment (request_json ?r)) = ''/assignees @''"
    by (simp add: example_request_def)
  have strip: "py_strip ''/assignees @'' = ''/assignees @''"
    by (simp add: py_strip_def py_isspace_def)
  have tokens: "py_split_ws ''/assignees @'' = [''/assignees'', ''@'']"
    by (simp add: py_isspace_def)
  have "comment_created_bot example_env (request_json ?r)
          = assign_command_bot ''octo/repo'' 5 ''/assignees @''"
    using assign_dispatch_bot [of "request_json ?r" "''/assignees''" "[''@'']" example_env]
    by (simp add: body tokens strip) (simp add: example_request_def)
  moreover have "comment_created_app example_env (request_json ?r) 7
          = assign_command_app ''octo/repo'' 5 ''/assignees @'' 7"
    using assign_dispatch_app [of "request_json ?r" "''/assignees''" "[''@'']" example_env 7]
    by (simp add: body tokens strip) (simp add: example_request_def)
  moreover have "assign_command_bot ''octo/repo'' 5 ''/assignees @'' = ([], Inl IndexError)"
    by (simp add: assign_command_bot_eq)
  moreover have "assign_command_app ''octo/repo'' 5 ''/assignees @'' 7 = ([], Inl IndexError)"
    by (simp add: assign_command_app_eq)
  ultimately show ?thesis
    using webhook_bot_comment [of ?r example_env] webhook_app_comment [of ?r 7 example_env]
    by (simp add: example_request_def)
qed

section \<open>Events outside the routing table\<close>

text \<open>
  C8. A delivery whose event and action are none of pull_request/opened,
  pull_request/closed, issues/opened and issue_comment/created makes no call and is
  answered with status 200: by bot.py always, by github_app.py when the delivery
  carries its installation id.
\<close>

theorem unrouted_event_ignored:
  assumes "\<not> (event_header r = Some ''pull_request''
               \<and> (action (request_json r) = ''opened'' \<or> action (request_json r) = ''closed''))"
    and "\<not> (event_header r = Some ''issues'' \<and> action (request_json r) = ''opened'')"
    and "\<not> (event_header r = Some ''issue_comment'' \<and> action (request_json r) = ''created'')"
  shows "webhook_bot e r = ([], Inr 200)
       \<and> (installation_id (request_json r) = Some i \<and> i \<noteq> 0
            \<longrightarrow> webhook_app e r = ([], Inr 200))"
  using assms by (auto simp: webhook_bot_def webhook_app_def Let_def)

theorem unrouted_event_ignored_witness:
  "webhook_bot example_env (example_request ''pull_request'' ''synchronize'' ''Title'' ''text'')
     = ([], Inr 200)
   \<and> webhook_app example_env (example_request ''pull_request'' ''synchronize'' ''Title'' ''text'')
     = ([], Inr 200)
   \<and> webhook_bot example_env (example_request ''issues'' ''closed'' ''Title'' ''text'')
     = ([], Inr 200)
   \<and> webhook_app example_env (example_request ''issues'' ''closed'' ''Title'' ''text'')
     = ([], Inr 200)
   \<and> webhook_bot example_env (example_request ''deployment'' ''created'' ''Title'' ''text'')
     = ([], Inr 200)
   \<and> webhook_app example_env (example_request ''deployment'' ''created'' ''Title'' ''text'')
     = ([], Inr 200)"
  using unrouted_event_ignored [of "example_request ''pull_request'' ''synchronize'' ''Title'' ''text''" example_env 7]
        unrouted_event_ignored [of "example_request ''issues'' ''closed'' ''Title'' ''text''" example_env 7]
        unrouted_event_ignored [of "example_request ''deployment'' ''created'' ''Title'' ''text''" example_env 7]
  by (simp add: example_request_def)

section \<open>The assign command\<close>

text \<open>
  C6, amended. For a created comment whose first token is \<open>/assign\<close>: with no \<open>@\<close> in
  the body, nothing is called. With an \<open>@\<close>, the assignee is the first
  whitespace-delimited token of the text between the first \<open>@\<close> and the next \<open>@\<close> (or
  the end of the stripped comment), when that text has a token. It is the token that
  follows the first \<open>@\<close> up to the next whitespace whenever that token is not empty and
  holds no further \<open>@\<close>; trailing text is ignored. bot.py adds the assignee and posts a
  confirmation, github_app.py adds the assignee.
\<close>

theorem assign_command_assignee:
  fixes r :: request and e :: env and i :: int
  defines "body \<equiv> comment_body (payload_comment (request_json r))"
  defines "repo \<equiv> repository_full_name (request_json r)"
  defines "n \<equiv> issue_number (payload_issue (request_json r))"
  defines "token \<equiv> takeWhile (\<lambda>x. \<not> py_isspace x) (tl (dropWhile (\<lambda>c. c \<noteq> CHR ''@'') body))"
  defines "after_at \<equiv> takeWhile (\<lambda>c. c \<noteq> CHR ''@'')
                         (tl (dropWhile (\<lambda>c. c \<noteq> CHR ''@'') (py_strip body)))"
  assumes "event_header r = Some ''issue_comment''"
    and "action (request_json r) = ''created''"
    and "py_split_ws body = ''/assign'' # rest"
  shows "(CHR ''@'' \<notin> set body \<longrightarrow>
            webhook_bot e r = ([], Inr 200)
            \<and> (installation_id (request_json r) = Some i \<and> i \<noteq> 0
                 \<longrightarrow> webhook_app e r = ([], Inr 200)))
       \<and> (CHR ''@'' \<in> set body \<and> token \<noteq> [] \<and> CHR ''@'' \<notin> set token \<longrightarrow>
            webhook_bot e r =
              ([bot_api ''POST'' (Issue_assignees repo n) (Some (Assignees [token])),
                bot_api ''POST'' (Issue_comments repo n) (Some (Body (Assigned_to token)))],
               Inr 200)
            \<and> (installation_id (request_json r) = Some i \<and> i \<noteq> 0
                 \<longrightarrow> webhook_app e r =
                       ([app_api ''POST'' (Issue_assignees repo n) i (Some (Assignees [token]))],
                        Inr 200)))
       \<and> (CHR ''@'' \<in> set body \<and> dropWhile py_isspace after_at \<noteq> [] \<longrightarrow>
            webhook_bot e r =
              ([bot_api ''POST'' (Issue_assignees repo n)
                  (Some (Assignees
                     [takeWhile (\<lambda>x. \<not> py_isspace x) (dropWhile py_isspace after_at)])),
                bot_api ''POST'' (Issue_comments repo n)
                  (Some (Body (Assigned_to
                     (takeWhile (\<lambda>x. \<not> py_isspace x) (dropWhile py_isspace after_at)))))],
               Inr 200)
            \<and> (installation_id (request_json r) = Some i \<and> i \<noteq> 0
                 \<longrightarrow> webhook_app e r =
                       ([app_api ''POST'' (Issue_assignees repo n) i
                           (Some (Assignees
                              [takeWhile (\<lambda>x. \<not> py_isspace x)
                                 (dropWhile py_isspace after_at)]))],
                        Inr 200)))"
proof -
  have tokens: "py_split_ws (comment_body (payload_comment (request_json r))) = ''/assign'' # rest"
    using assms(8) by (simp add: body_def)
  have at: "(CHR ''@'' \<in> set (py_strip body)) = (CHR ''@'' \<in> set body)"
    by (simp add: set_py_strip_nonspace)
  have bot: "webhook_bot e r = assign_command_bot repo n (py_strip body)"
    using assms(6,7) assign_dispatch_bot [OF tokens, of e]
    by (simp add: webhook_bot_comment body_def repo_def n_def)
  have app: "installation_id (request_json r) = Some i \<Longrightarrow> i \<noteq> 0 \<Longrightarrow>
      webhook_app e r =
        (if CHR ''@'' \<in> set body then assign_command_app repo n (py_strip body) i
         else ([], Inr 200))"
    using assms(6,7) assign_dispatch_app [OF tokens, of e i] at
    by (simp add: webhook_app_comment body_def repo_def n_def py_in_char)
  have general: "CHR ''@'' \<in> set body \<Longrightarrow> dropWhile py_isspace after_at \<noteq> [] \<Longrightarrow>
      webhook_bot e r =
        ([bot_api ''POST'' (Issue_assignees repo n)
            (Some (Assignees
               [takeWhile (\<lambda>x. \<not> py_isspace x) (dropWhile py_isspace after_at)])),
          bot_api ''POST'' (Issue_comments repo n)
            (Some (Body (Assigned_to
               (takeWhile (\<lambda>x. \<not> py_isspace x) (dropWhile py_isspace after_at)))))],
         Inr 200)
      \<and> (installation_id (request_json r) = Some i \<and> i \<noteq> 0
           \<longrightarrow> webhook_app e r =
                 ([app_api ''POST'' (Issue_assignees repo n) i
                     (Some (Assignees
                        [takeWhile (\<lambda>x. \<not> py_isspace x) (dropWhile py_isspace after_at)]))],
                  Inr 200))"
    using at app by (auto simp: bot assign_command_bot_eq assign_command_app_eq Let_def after_at_def)
  have none: "CHR ''@'' \<notin> set body \<Longrightarrow>
      webhook_bot e r = ([], Inr 200)
      \<and> (installation_id (request_json r) = Some i \<and> i \<noteq> 0
           \<longrightarrow> webhook_app e r = ([], Inr 200))"
    using at app by (simp add: bot assign_command_bot_eq)
  have exact: "CHR ''@'' \<in> set body \<Longrightarrow> token \<noteq> [] \<Longrightarrow> CHR ''@'' \<notin> set token \<Longrightarrow>
      dropWhile py_isspace after_at \<noteq> []
      \<and> takeWhile (\<lambda>x. \<not> py_isspace x) (dropWhile py_isspace after_at) = token"
    using token_after_at [of body token] by (simp add: token_def after_at_def)
  show ?thesis
    using none general exact by metis
qed

lemma example_assign_tokens:
  "py_split_ws ''/assign @alice extra text'' = [''/assign'', ''@alice'', ''extra'', ''text'']"
  by (simp add: py_isspace_def)

theorem assign_command_assignee_witness:
  "webhook_bot example_env
     (example_request ''issue_comment'' ''created'' ''Title'' ''/assign @alice extra text'')
     = ([bot_api ''POST'' (Issue_assignees ''octo/repo'' 5) (Some (Assignees [''alice''])),
         bot_api ''POST'' (Issue_comments ''octo/repo'' 5) (Some (Body (Assigned_to ''alice'')))],
        Inr 200)
   \<and> webhook_app example_env
     (example_request ''issue_comment'' ''created'' ''Title'' ''/assign @alice extra text'')
     = ([app_api ''POST'' (Issue_assignees ''octo/repo'' 5) 7 (Some (Assignees [''alice'']))],
        Inr 200)
   \<and> webhook_bot example_env
     (example_request ''issue_comment'' ''created'' ''Title'' ''/assign alice'')
     = ([], Inr 200)
   \<and> webhook_app example_env
     (example_request ''issue_comment'' ''created'' ''Title'' ''/assign alice'')
     = ([], Inr 200)"
proof -
  have t2: "py_split_ws ''/assign alice'' = [''/assign'', ''alice'']"
    by (simp add: py_isspace_def)
  have tok: "takeWhile (\<lambda>x. \<not> py_isspace x)
               (tl (dropWhile (\<lambda>c. c \<noteq> CHR ''@'') ''/assign @alice extra text'')) = ''alice''"
    by (simp add: py_isspace_def)
  show ?thesis
    using assign_command_assignee
            [where r = "example_request ''issue_comment'' ''created'' ''Title''
                          ''/assign @alice extra text''"
               and rest = "[''@alice'', ''extra'', ''text'']" and e = example_env and i = 7]
          assign_command_assignee
            [where r = "example_request ''issue_comment'' ''created'' ''Title'' ''/assign alice''"
               and rest = "[''alice'']" and e = example_env and i = 7]
    by (simp add: example_request_def example_assign_tokens t2 tok py_isspace_def py_strip_def)
qed

text \<open>
  The token after the first \<open>@\<close> of \<open>/assign @alice@example.com now\<close> is
  \<open>alice@example.com\<close>; both webhooks assign \<open>alice\<close>.
\<close>

theorem assign_command_second_at_counterexample:
  "py_split_ws ''/assign @alice@example.com now'' = [''/assign'', ''@alice@example.com'', ''now'']
   \<and> takeWhile (\<lambda>x. \<not> py_isspace x)
        (tl (dropWhile (\<lambda>c. c \<noteq> CHR ''@'') ''/assign @alice@example.com now''))
      = ''alice@example.com''
   \<and> webhook_bot example_env
        (example_request ''issue_comment'' ''created'' ''Title'' ''/assign @alice@example.com now'')
      = ([bot_api ''POST'' (Issue_assignees ''octo/repo'' 5) (Some (Assignees [''alice''])),
          bot_api ''POST'' (Issue_comments ''octo/repo'' 5) (Some (Body (Assigned_to ''alice'')))],
         Inr 200)
   \<and> webhook_app example_env
        (example_request ''issue_comment'' ''created'' ''Title'' ''/assign @alice@example.com now'')
      = ([app_api ''POST'' (Issue_assignees ''octo/repo'' 5) 7 (Some (Assignees [''alice'']))],
         Inr 200)"
proof -
  let ?r = "example_request ''issue_comment'' ''created'' ''Title'' ''/assign @alice@example.com now''"
  have body: "comment_body (payload_comment (request_json ?r)) = ''/assign @alice@example.com now''"
    by (simp add: example_request_def)
  have strip: "py_strip ''/assign @alice@example.com now'' = ''/assign @alice@example.com now''"
    by (simp add: py_strip_def py_isspace_def)
  have tokens: "py_split_ws ''/assign @alice@example.com now''
                  = [''/assign'', ''@alice@example.com'', ''now'']"
    by (simp add: py_isspace_def)
  have tok: "takeWhile (\<lambda>x. \<not> py_isspace x)
        (tl (dropWhile (\<lambda>c. c \<noteq> CHR ''@'') ''/assign @alice@example.com now''))
      = ''alice@example.com''"
    by (simp add: py_isspace_def)
  have "comment_created_bot example_env (request_json ?r)
          = assign_command_bot ''octo/repo'' 5 ''/assign @alice@example.com now''"
    using assign_dispatch_bot [of "request_json ?r" "''/assign''" "[''@alice@example.com'', ''now'']"
            example_env]
    by (simp add: body tokens strip) (simp add: example_request_def)
  moreover have "comment_created_app example_env (request_json ?r) 7
          = assign_command_app ''octo/repo'' 5 ''/assign @alice@example.com now'' 7"
    using assign_dispatch_app [of "request_json ?r" "''/assign''" "[''@alice@example.com'', ''now'']"
            example_env 7]
    by (simp add: body tokens strip) (simp add: example_request_def)
  moreover have "assign_command_bot ''octo/repo'' 5 ''/assign @alice@example.com now''
      = ([bot_api ''POST'' (Issue_assignees ''octo/repo'' 5) (Some (Assignees [''alice''])),
          bot_api ''POST'' (Issue_comments ''octo/repo'' 5) (Some (Body (Assigned_to ''alice'')))],
         Inr 200)"
    by (simp add: assign_command_bot_eq py_isspace_def Let_def)
  moreover have "assign_command_app ''octo/repo'' 5 ''/assign @alice@example.com now'' 7
      = ([app_api ''POST'' (Issue_assignees ''octo/repo'' 5) 7 (Some (Assignees [''alice'']))],
         Inr 200)"
    by (simp add: assign_command_app_eq py_isspace_def Let_def)
  ultimately show ?thesis
    using webhook_bot_comment [of ?r example_env] webhook_app_comment [of ?r 7 example_env]
      tokens tok
    by (simp add: example_request_def)
qed

section \<open>Labels of an opened issue\<close>

lemma issue_labels_bot_rules:
  "issue_labels_bot title =
     map snd (filter (\<lambda>(words, label). list_ex (\<lambda>word. py_in word title) words)
       [([''bug'', ''error'', ''broken''], ''bug''),
        ([''feature'', ''enhancement''], ''enhancement''),
        ([''question'', ''?''], ''question''),
        ([''help'', ''support''], ''help wanted''),
        ([''urgent'', ''critical''], ''priority: high'')])"
  by (simp add: issue_labels_bot_def Let_def)

lemma issue_labels_app_rules:
  "issue_labels_app title =
     map snd (filter (\<lambda>(words, label). list_ex (\<lambda>word. py_in word title) words)
       [([''bug'', ''error'', ''broken'', ''crash''], ''bug''),
        ([''feature'', ''enhancement'', ''add''], ''enhancement''),
        ([''question'', ''?'', ''how''], ''question''),
        ([''urgent'', ''critical'', ''important''], ''priority: high'')])"
  by (simp add: issue_labels_app_def Let_def)

text \<open>
  C3, amended. For an opened issue the labels are computed from the lower-cased title
  alone; the body is not scanned. Every rule applies on its own and adds its one label,
  in the order of the rules. In github_app.py the words for \<open>bug\<close> are bug, error,
  broken and crash, so a title with \<open>crash\<close> yields \<open>bug\<close>; in bot.py they are bug,
  error and broken. No label means no call.
\<close>

theorem issue_labels_from_title:
  fixes r :: request and e :: env and i :: int
  defines "title \<equiv> py_lower (issue_title (payload_issue (request_json r)))"
  defines "url \<equiv> Issue_labels (repository_full_name (request_json r))
                    (issue_number (payload_issue (request_json r)))"
  defines "labels_bot \<equiv>
     map snd (filter (\<lambda>(words, label). list_ex (\<lambda>word. py_in word title) words)
       [([''bug'', ''error'', ''broken''], ''bug''),
        ([''feature'', ''enhancement''], ''enhancement''),
        ([''question'', ''?''], ''question''),
        ([''help'', ''support''], ''help wanted''),
        ([''urgent'', ''critical''], ''priority: high'')])"
  defines "labels_app \<equiv>
     map snd (filter (\<lambda>(words, label). list_ex (\<lambda>word. py_in word title) words)
       [([''bug'', ''error'', ''broken'', ''crash''], ''bug''),
        ([''feature'', ''enhancement'', ''add''], ''enhancement''),
        ([''question'', ''?'', ''how''], ''question''),
        ([''urgent'', ''critical'', ''important''], ''priority: high'')])"
  assumes "event_header r = Some ''issues''"
    and "action (request_json r) = ''opened''"
  shows "webhook_bot e r =
           ((if labels_bot = [] then []
             else [bot_api ''POST'' url (Some (Labels labels_bot))]), Inr 200)
       \<and> (installation_id (request_json r) = Some i \<and> i \<noteq> 0 \<longrightarrow>
            webhook_app e r =
              ((if labels_app = [] then []
                else [app_api ''POST'' url i (Some (Labels labels_app))]), Inr 200))"
proof -
  have "webhook_bot e r = (issue_opened_bot (request_json r), Inr 200)"
    using assms(5,6) by (simp add: webhook_bot_def Let_def)
  moreover have "issue_opened_bot (request_json r) =
      (if labels_bot = [] then [] else [bot_api ''POST'' url (Some (Labels labels_bot))])"
    unfolding issue_opened_bot_def Let_def labels_bot_def title_def url_def
      issue_labels_bot_rules by simp
  moreover have "installation_id (request_json r) = Some i \<Longrightarrow> i \<noteq> 0 \<Longrightarrow>
      webhook_app e r = (issue_opened_app (request_json r) i, Inr 200)"
    using assms(5,6) by (simp add: webhook_app_def Let_def)
  moreover have "issue_opened_app (request_json r) i =
      (if labels_app = [] then [] else [app_api ''POST'' url i (Some (Labels labels_app))])"
    unfolding issue_opened_app_def Let_def labels_app_def title_def url_def
      issue_labels_app_rules by simp
  ultimately show ?thesis by simp
qed

theorem issue_labels_from_title_witness:
  "webhook_bot example_env (example_request ''issues'' ''opened'' ''Crash: broken build?'' ''text'')
     = ([bot_api ''POST'' (Issue_labels ''octo/repo'' 5) (Some (Labels [''bug'', ''question'']))],
        Inr 200)
   \<and> webhook_app example_env (example_request ''issues'' ''opened'' ''Crash on start'' ''text'')
     = ([app_api ''POST'' (Issue_labels ''octo/repo'' 5) 7 (Some (Labels [''bug'']))], Inr 200)"
  using issue_labels_from_title
          [where r = "example_request ''issues'' ''opened'' ''Crash: broken build?'' ''text''"
             and e = example_env and i = 7]
        issue_labels_from_title
          [where r = "example_request ''issues'' ''opened'' ''Crash on start'' ''text''"
             and e = example_env and i = 7]
  by (simp add: example_request_def py_lower_def py_lower_char_def)

text \<open>
  bot.py gives an issue titled \<open>App crash on start\<close> no label, and neither webhook
  reads the body \<open>It has a bug.\<close>
\<close>

theorem issue_crash_keyword_counterexample:
  "issue_title (payload_issue (request_json
      (example_request ''issues'' ''opened'' ''App crash on start'' ''text''))) = ''App crash on start''
   \<and> issue_body (payload_issue (request_json
      (example_request ''issues'' ''opened'' ''App crash on start'' ''text''))) = Some ''It has a bug.''
   \<and> webhook_bot example_env (example_request ''issues'' ''opened'' ''App crash on start'' ''text'')
       = ([], Inr 200)
   \<and> webhook_app example_env (example_request ''issues'' ''opened'' ''Slow start'' ''text'')
       = ([], Inr 200)"
  by (simp add: example_request_def webhook_bot_def webhook_app_def Let_def
      issue_opened_bot_def issue_opened_app_def issue_labels_bot_def issue_labels_app_def
      py_lower_def py_lower_char_def)

section \<open>Requested reviewers\<close>

lemma set_set_add [simp]: "set (set_add x s) = insert x (set s)"
  by (auto simp: set_add_def)

lemma distinct_set_add [simp]: "distinct (set_add x s) = distinct s"
  by (simp add: set_add_def)

lemma set_commit_loop:
  "set (commit_loop author commits reviewers) =
     set reviewers \<union> {login. login \<noteq> author \<and> Some login \<in> commit_author ` set commits}"
proof (induction commits arbitrary: reviewers)
  case Nil
  show ?case by simp
next
  case (Cons c commits)
  show ?case by (cases "commit_author c") (auto simp: Cons.IH)
qed

lemma distinct_commit_loop:
  "distinct reviewers \<Longrightarrow> distinct (commit_loop author commits reviewers)"
proof (induction commits arbitrary: reviewers)
  case Nil
  then show ?case by simp
next
  case (Cons c commits)
  then show ?case by (cases "commit_author c") simp_all
qed

lemma set_reviewer_loop:
  "set (fst (reviewer_loop e repo author files (reviewers, calls))) =
     set reviewers
     \<union> {login. login \<noteq> author
            \<and> (\<exists>f \<in> set files. file_contents e repo (filename f)
                  \<and> Some login \<in> commit_author ` set (take 3 (path_commits e repo (filename f))))}"
proof (induction files arbitrary: reviewers calls)
  case Nil
  show ?case by simp
next
  case (Cons f files)
  show ?case by (auto simp: Cons.IH set_commit_loop)
qed

lemma distinct_reviewer_loop:
  "distinct reviewers \<Longrightarrow> distinct (fst (reviewer_loop e repo author files (reviewers, calls)))"
proof (induction files arbitrary: reviewers calls)
  case Nil
  then show ?case by simp
next
  case (Cons f files)
  then show ?case by (simp add: distinct_commit_loop)
qed

lemma reviewer_loop_calls:
  "c \<in> set (snd (reviewer_loop e repo author files (reviewers, calls))) \<Longrightarrow>
     c \<in> set calls \<or> (\<exists>url. c = bot_api ''GET'' url None)"
proof (induction files arbitrary: reviewers calls)
  case Nil
  then show ?case by simp
next
  case (Cons f files)
  from Cons.prems show ?case
    by (auto dest!: Cons.IH split: if_splits)
qed

text \<open>
  C4, amended. Where a set lists each of its elements once, the list of requested
  reviewers is the first three entries of the listing of the set of candidates: it is
  not empty, has at most 3 entries and no duplicates, never contains the author of the
  pull request, and every entry is the author of one of the first 3 commits returned
  for a changed file whose contents lookup was not empty. Its order, and the choice of
  three among more candidates, follow the listing order of the set, which need not be
  the order in which the candidates were first met.
\<close>

theorem requested_reviewers:
  assumes "\<forall>xs. distinct xs \<longrightarrow> distinct (set_order e xs) \<and> set (set_order e xs) = set xs"
    and "bot_api ''POST'' (Requested_reviewers repo n) (Some (Reviewers rs))
           \<in> set (auto_assign_reviewers e repo n files author)"
  shows "rs = take 3 (set_order e (fst (reviewer_loop e repo author files ([], []))))
       \<and> rs \<noteq> [] \<and> length rs \<le> 3 \<and> distinct rs \<and> author \<notin> set rs
       \<and> (\<forall>login \<in> set rs. \<exists>f \<in> set files.
             file_contents e repo (filename f)
             \<and> Some login \<in> commit_author ` set (take 3 (path_commits e repo (filename f))))"
proof -
  obtain reviewers calls
    where loop: "reviewer_loop e repo author files ([], []) = (reviewers, calls)"
    by (cases "reviewer_loop e repo author files ([], [])")
  have gets: "\<And>c. c \<in> set calls \<Longrightarrow> \<exists>url. c = bot_api ''GET'' url None"
    using reviewer_loop_calls [of _ e repo author files "[]" "[]"] loop by auto
  have not_get: "bot_api ''POST'' (Requested_reviewers repo n) (Some (Reviewers rs)) \<notin> set calls"
    using gets by (auto simp: bot_api_def)
  have ne: "reviewers \<noteq> []" and rs: "rs = take 3 (set_order e reviewers)"
    using assms(2) not_get
    by (auto simp: auto_assign_reviewers_def loop bot_api_def split: if_splits)
  have dr: "distinct reviewers"
    using distinct_reviewer_loop [of "[]" e repo author files "[]"] loop by simp
  then have ord: "distinct (set_order e reviewers)" "set (set_order e reviewers) = set reviewers"
    using assms(1) by simp_all
  have sr: "set reviewers =
     {login. login \<noteq> author
        \<and> (\<exists>f \<in> set files. file_contents e repo (filename f)
              \<and> Some login \<in> commit_author ` set (take 3 (path_commits e repo (filename f))))}"
    using set_reviewer_loop [of e repo author files "[]" "[]"] loop by simp
  have sub: "set rs \<subseteq> set reviewers"
    using rs ord(2) set_take_subset [of 3 "set_order e reviewers"] by simp
  have "set_order e reviewers \<noteq> []" using ne ord(2) by auto
  then have "rs \<noteq> []" using rs by simp
  moreover have "length rs \<le> 3" using rs by simp
  moreover have "distinct rs" using rs ord(1) by simp
  moreover have "author \<notin> set rs" using sub sr by auto
  moreover have "\<forall>login \<in> set rs. \<exists>f \<in> set files.
             file_contents e repo (filename f)
             \<and> Some login \<in> commit_author ` set (take 3 (path_commits e repo (filename f)))"
    using sub sr by auto
  ultimately show ?thesis using rs loop by simp
qed

lemma example_reviewers:
  "auto_assign_reviewers example_env ''octo/repo'' 5
     [\<lparr>filename = ''app.py'', changes = Some 12, patch = None\<rparr>] ''carol''
   = [bot_api ''GET'' (File_contents ''octo/repo'' ''app.py'') None,
      bot_api ''GET'' (Path_commits ''octo/repo'' ''app.py'' 5) None,
      bot_api ''POST'' (Requested_reviewers ''octo/repo'' 5)
        (Some (Reviewers [''bob'', ''alice'']))]"
  by (simp add: auto_assign_reviewers_def example_env_def set_add_def)

theorem requested_reviewers_witness:
  "bot_api ''POST'' (Requested_reviewers ''octo/repo'' 5) (Some (Reviewers [''bob'', ''alice'']))
     \<in> set (auto_assign_reviewers example_env ''octo/repo'' 5
              [\<lparr>filename = ''app.py'', changes = Some 12, patch = None\<rparr>] ''carol'')
   \<and> length [''bob'', ''alice''] \<le> 3
   \<and> ''carol'' \<notin> set [''bob'', ''alice'']
   \<and> [''bob'', ''alice''] =
       take 3 (set_order example_env (fst (reviewer_loop example_env ''octo/repo'' ''carol''
         [\<lparr>filename = ''app.py'', changes = Some 12, patch = None\<rparr>] ([], []))))"
proof -
  have ord: "\<forall>xs. distinct xs \<longrightarrow>
      distinct (set_order example_env xs) \<and> set (set_order example_env xs) = set xs"
    by (simp add: example_env_def)
  have mem: "bot_api ''POST'' (Requested_reviewers ''octo/repo'' 5)
               (Some (Reviewers [''bob'', ''alice'']))
     \<in> set (auto_assign_reviewers example_env ''octo/repo'' 5
              [\<lparr>filename = ''app.py'', changes = Some 12, patch = None\<rparr>] ''carol'')"
    by (simp add: example_reviewers)
  have eq: "[''bob'', ''alice''] =
       take 3 (set_order example_env (fst (reviewer_loop example_env ''octo/repo'' ''carol''
         [\<lparr>filename = ''app.py'', changes = Some 12, patch = None\<rparr>] ([], []))))"
    using requested_reviewers [OF ord mem] by (rule conjunct1)
  show ?thesis
    by (intro conjI mem eq) simp_all
qed

text \<open>
  The commits of \<open>app.py\<close> are by alice and then by bob; in a run whose sets list
  their elements in reverse, the request names bob before alice.
\<close>

theorem reviewer_order_counterexample:
  "map commit_author (take 3 (path_commits example_env ''octo/repo'' ''app.py''))
     = [Some ''alice'', Some ''bob'']
   \<and> fst (reviewer_loop example_env ''octo/repo'' ''carol''
           [\<lparr>filename = ''app.py'', changes = Some 12, patch = None\<rparr>] ([], []))
     = [''alice'', ''bob'']
   \<and> auto_assign_reviewers example_env ''octo/repo'' 5
        [\<lparr>filename = ''app.py'', changes = Some 12, patch = None\<rparr>] ''carol''
     = [bot_api ''GET'' (File_contents ''octo/repo'' ''app.py'') None,
        bot_api ''GET'' (Path_commits ''octo/repo'' ''app.py'' 5) None,
        bot_api ''POST'' (Requested_reviewers ''octo/repo'' 5)
          (Some (Reviewers [''bob'', ''alice'']))]"
  by (simp add: auto_assign_reviewers_def example_env_def set_add_def)

end
